theory Spec2Isabelle
  imports Complex_Main "HOL-Library.AList"
begin

section \<open>Numbers\<close>

text \<open>
  A JavaScript \<open>number\<close> is modelled as a real: the arithmetic of the program is read
  exactly, without rounding error. The values \<open>Infinity\<close> and \<open>NaN\<close> are not reals;
  wherever the program can produce one (a division by zero), the model says so with the
  result \<open>None\<close> instead of computing with HOL's \<open>x / 0 = 0\<close>.
\<close>

definition Math_round :: "real \<Rightarrow> real" where
  \<comment> \<open>\<open>Math.round\<close>: the nearest integer, a tie going up.\<close>
  "Math_round x = of_int \<lfloor>x + 1 / 2\<rfloor>"

definition Math_floor :: "real \<Rightarrow> real" where
  "Math_floor x = of_int \<lfloor>x\<rfloor>"

definition Math_ceil :: "real \<Rightarrow> real" where
  "Math_ceil x = of_int \<lceil>x\<rceil>"

section \<open>ChironEngine: regimes and weight vectors\<close>

datatype ChironMarketRegime = Neutral | Trend | Chop | RiskOff | NewsShock

record ModuleWeights =
  atlas :: real
  orion :: real
  aether :: real
  demeter :: real
  phoenix :: real
  hermes :: real
  athena :: real
  cronos :: real

text \<open>The fields of \<open>ChironContext\<close> that \<open>detectRegime\<close> reads; an absent field is \<open>None\<close>.\<close>

record ChironContext =
  orionScore :: "real option"
  aetherScore :: "real option"
  chopIndex :: "real option"

text \<open>\<open>StoredWeights\<close> without its notes and timestamp, which no weight depends on.\<close>

record StoredWeights =
  coreWeights :: ModuleWeights
  pulseWeights :: ModuleWeights

record WeightPair =
  core :: ModuleWeights
  pulse :: ModuleWeights

record ChironResult =
  regime :: ChironMarketRegime
  r_coreWeights :: ModuleWeights
  r_pulseWeights :: ModuleWeights

definition detectRegime :: "ChironContext \<Rightarrow> ChironMarketRegime" where
  "detectRegime context =
     (let orion = (case orionScore context of Some v \<Rightarrow> v | None \<Rightarrow> 50);
          aether = (case aetherScore context of Some v \<Rightarrow> v | None \<Rightarrow> 50);
          chop = (case chopIndex context of Some v \<Rightarrow> v | None \<Rightarrow> 50)
      in if aether < 40 then RiskOff
         else if orion \<ge> 60 \<and> chop < 45 then Trend
         else if chop > 60 then Chop
         else Neutral)"

definition getBaseWeights :: "ChironMarketRegime \<Rightarrow> WeightPair" where
  "getBaseWeights rg =
     (case rg of
        Trend \<Rightarrow>
          \<lparr>core = \<lparr>atlas = 0.20, orion = 0.25, aether = 0.20, demeter = 0.15,
                   phoenix = 0.10, hermes = 0.05, athena = 0.05, cronos = 0\<rparr>,
           pulse = \<lparr>atlas = 0.10, orion = 0.35, aether = 0.15, demeter = 0.10,
                    phoenix = 0.20, hermes = 0.05, athena = 0.05, cronos = 0\<rparr>\<rparr>
      | Chop \<Rightarrow>
          \<lparr>core = \<lparr>atlas = 0.30, orion = 0.15, aether = 0.25, demeter = 0.15,
                   phoenix = 0.05, hermes = 0.05, athena = 0.05, cronos = 0\<rparr>,
           pulse = \<lparr>atlas = 0.20, orion = 0.20, aether = 0.20, demeter = 0.15,
                    phoenix = 0.15, hermes = 0.05, athena = 0.05, cronos = 0\<rparr>\<rparr>
      | RiskOff \<Rightarrow>
          \<lparr>core = \<lparr>atlas = 0.35, orion = 0.10, aether = 0.30, demeter = 0.15,
                   phoenix = 0, hermes = 0.05, athena = 0.05, cronos = 0\<rparr>,
           pulse = \<lparr>atlas = 0.25, orion = 0.15, aether = 0.30, demeter = 0.15,
                    phoenix = 0.05, hermes = 0.05, athena = 0.05, cronos = 0\<rparr>\<rparr>
      | _ \<Rightarrow>
          \<lparr>core = \<lparr>atlas = 0.25, orion = 0.20, aether = 0.20, demeter = 0.15,
                   phoenix = 0.05, hermes = 0.05, athena = 0.10, cronos = 0\<rparr>,
           pulse = \<lparr>atlas = 0.15, orion = 0.25, aether = 0.20, demeter = 0.10,
                    phoenix = 0.15, hermes = 0.10, athena = 0.05, cronos = 0\<rparr>\<rparr>)"

definition blendWeight :: "real \<Rightarrow> ModuleWeights \<Rightarrow> ModuleWeights \<Rightarrow> ModuleWeights" where
  "blendWeight factor baseW learnedW =
     \<lparr>atlas = atlas baseW * (1 - factor) + atlas learnedW * factor,
      orion = orion baseW * (1 - factor) + orion learnedW * factor,
      aether = aether baseW * (1 - factor) + aether learnedW * factor,
      demeter = demeter baseW * (1 - factor) + demeter learnedW * factor,
      phoenix = phoenix baseW * (1 - factor) + phoenix learnedW * factor,
      hermes = hermes baseW * (1 - factor) + hermes learnedW * factor,
      athena = athena baseW * (1 - factor) + athena learnedW * factor,
      cronos = cronos baseW * (1 - factor) + cronos learnedW * factor\<rparr>"

definition blendWeights :: "WeightPair \<Rightarrow> StoredWeights \<Rightarrow> real \<Rightarrow> WeightPair" where
  "blendWeights base learned factor =
     \<lparr>core = blendWeight factor (core base) (coreWeights learned),
      pulse = blendWeight factor (pulse base) (pulseWeights learned)\<rparr>"

definition weightSum :: "ModuleWeights \<Rightarrow> real" where
  \<comment> \<open>The local \<open>sum\<close> of \<open>normalizeWeights\<close>.\<close>
  "weightSum weights =
     atlas weights + orion weights + aether weights + demeter weights
       + phoenix weights + hermes weights + athena weights + cronos weights"

definition normalizeWeights :: "ModuleWeights \<Rightarrow> ModuleWeights" where
  "normalizeWeights weights =
     (let sum = weightSum weights
      in if sum = 0 then weights
         else \<lparr>atlas = atlas weights / sum,
               orion = orion weights / sum,
               aether = aether weights / sum,
               demeter = demeter weights / sum,
               phoenix = phoenix weights / sum,
               hermes = hermes weights / sum,
               athena = athena weights / sum,
               cronos = cronos weights / sum\<rparr>)"

text \<open>
  \<open>evaluate\<close> reads the engine's field \<open>dynamicConfig\<close> (the learned weights, \<open>null\<close> until
  \<open>storeLearnings\<close> is called or a stored vector is loaded); it is the first argument here.
\<close>

definition evaluate :: "StoredWeights option \<Rightarrow> ChironContext \<Rightarrow> ChironResult" where
  "evaluate dynamicConfig context =
     (let rg = detectRegime context;
          weights = (case dynamicConfig of
                       Some learned \<Rightarrow> blendWeights (getBaseWeights rg) learned 0.6
                     | None \<Rightarrow> getBaseWeights rg)
      in \<lparr>regime = rg,
          r_coreWeights = normalizeWeights (core weights),
          r_pulseWeights = normalizeWeights (pulse weights)\<rparr>)"

section \<open>ArgusDecisionEngine\<close>

record ModuleScores =
  ms_atlas :: "real option"
  ms_orion :: "real option"
  ms_phoenix :: "real option"
  ms_aether :: "real option"
  ms_demeter :: "real option"
  ms_cronos :: "real option"
  ms_news :: "real option"

record NewsSentiment =
  ns_score :: real
  ns_summary :: string

text \<open>
  \<open>ModuleInputs\<close>: of each module result only its \<open>score\<close> is kept, \<open>None\<close> standing for a
  result that is \<open>null\<close> or missing; the other fields of the results feed the explanation
  texts only, which are not modelled.
\<close>

record ModuleInputs =
  in_atlas :: "real option"
  in_orion :: "real option"
  in_phoenix :: "real option"
  in_aether :: "real option"
  in_demeter :: "real option"
  in_cronos :: "real option"
  newsSentiment :: "NewsSentiment option"
  in_symbol :: string

datatype Confidence = High | Medium | Low

text \<open>The five signal labels of \<open>getSignal\<close>, from the strongest buy to the strongest sell.\<close>

datatype Signal = StrongBuy | Buy | Hold | Sell | StrongSell

text \<open>
  \<open>ArgusDecision\<close> without its texts (explanation, action items, news impact, warnings)
  and without the regime label copied from the macro result: \<open>generateInsights\<close> and the
  warnings only build strings from the scores computed here.
\<close>

record ArgusDecision =
  coreScore :: real
  pulseScore :: real
  newsScore :: real
  compositeScore :: real
  coreSignal :: Signal
  pulseSignal :: Signal
  finalSignal :: Signal
  confidence :: Confidence
  moduleScores :: ModuleScores

definition normalizeNews :: "real \<Rightarrow> real" where
  \<comment> \<open>\<open>Math.max(0, Math.min(100, 50 + news / 2))\<close>, written twice in the source.\<close>
  "normalizeNews news = max 0 (min 100 (50 + news / 2))"

definition contribute :: "real option \<Rightarrow> real \<Rightarrow> real \<times> real \<Rightarrow> real \<times> real" where
  \<comment> \<open>One \<open>if (score !== undefined) { weightedSum += ...; totalWeight += ... }\<close> block,
      on the pair \<open>(weightedSum, totalWeight)\<close>.\<close>
  "contribute score weight acc =
     (case score of
        None \<Rightarrow> acc
      | Some v \<Rightarrow> (fst acc + v * weight, snd acc + weight))"

definition calculateWeightedScore :: "ModuleScores \<Rightarrow> ModuleWeights \<Rightarrow> real" where
  "calculateWeightedScore scores weights =
     (let acc0 = (0, 0);
          acc1 = contribute (ms_atlas scores) (atlas weights) acc0;
          acc2 = contribute (ms_orion scores) (orion weights) acc1;
          acc3 = contribute (ms_phoenix scores) (phoenix weights) acc2;
          acc4 = contribute (ms_aether scores) (aether weights) acc3;
          acc5 = contribute (ms_demeter scores) (demeter weights) acc4;
          acc6 = contribute (ms_cronos scores) (cronos weights) acc5;
          acc7 = contribute (map_option normalizeNews (ms_news scores)) (hermes weights) acc6;
          weightedSum = fst acc7;
          totalWeight = snd acc7
      in if totalWeight = 0 then 50 else weightedSum / totalWeight)"

definition getSignal :: "real \<Rightarrow> Signal" where
  "getSignal score =
     (if score \<ge> 80 then StrongBuy
      else if score \<ge> 65 then Buy
      else if score \<ge> 50 then Hold
      else if score \<ge> 35 then Sell
      else StrongSell)"

definition availableModules :: "ModuleScores \<Rightarrow> nat" where
  \<comment> \<open>\<open>Object.values(scores).filter(s => s !== undefined).length\<close>, over the seven keys.\<close>
  "availableModules scores =
     length (filter (\<lambda>s. s \<noteq> None)
       [ms_atlas scores, ms_orion scores, ms_phoenix scores, ms_aether scores,
        ms_demeter scores, ms_cronos scores, ms_news scores])"

definition calculateConfidence :: "real \<Rightarrow> real \<Rightarrow> real \<Rightarrow> ModuleScores \<Rightarrow> Confidence" where
  "calculateConfidence cScore pScore nScore scores =
     (if availableModules scores < 3 then Low
      else let scoreDiff = \<bar>cScore - pScore\<bar>
        in if scoreDiff < 15 then
             (if (cScore \<ge> 65 \<and> pScore \<ge> 65 \<and> nScore > 20)
                 \<or> (cScore \<le> 35 \<and> pScore \<le> 35 \<and> nScore < - 20)
              then High else Medium)
           else if scoreDiff < 30 then Medium
           else Low)"

definition collectScores :: "ModuleInputs \<Rightarrow> ModuleScores" where
  \<comment> \<open>The object literal \<open>moduleScores\<close> at the head of \<open>makeDecision\<close>.\<close>
  "collectScores inputs =
     \<lparr>ms_atlas = in_atlas inputs,
      ms_orion = in_orion inputs,
      ms_phoenix = in_phoenix inputs,
      ms_aether = in_aether inputs,
      ms_demeter = in_demeter inputs,
      ms_cronos = in_cronos inputs,
      ms_news = (case newsSentiment inputs of
                   Some s \<Rightarrow> Some (Math_round (ns_score s * 100))
                 | None \<Rightarrow> None)\<rparr>"

definition chironContext :: "ModuleScores \<Rightarrow> ChironContext" where
  \<comment> \<open>\<open>makeDecision\<close> never sets \<open>chopIndex\<close>.\<close>
  "chironContext scores =
     \<lparr>orionScore = ms_orion scores, aetherScore = ms_aether scores, chopIndex = None\<rparr>"

definition makeDecision :: "StoredWeights option \<Rightarrow> ModuleInputs \<Rightarrow> ArgusDecision" where
  "makeDecision dynamicConfig inputs =
     (let scores = collectScores inputs;
          chiron = evaluate dynamicConfig (chironContext scores);
          cScore = calculateWeightedScore scores (r_coreWeights chiron);
          pScore = calculateWeightedScore scores (r_pulseWeights chiron);
          nScore = (case ms_news scores of Some n \<Rightarrow> n | None \<Rightarrow> 0);
          normalizedNewsScore = normalizeNews nScore;
          composite = Math_round (cScore * 0.4 + pScore * 0.45 + normalizedNewsScore * 0.15)
      in \<lparr>coreScore = Math_round cScore,
          pulseScore = Math_round pScore,
          newsScore = nScore,
          compositeScore = composite,
          coreSignal = getSignal cScore,
          pulseSignal = getSignal pScore,
          finalSignal = getSignal composite,
          confidence = calculateConfidence cScore pScore nScore scores,
          moduleScores = scores\<rparr>)"

section \<open>PaperBrokerService: the single-portfolio ledger\<close>

text \<open>
  The service's fields \<open>cash\<close>, \<open>positions\<close>, \<open>trades\<close> and \<open>startingCapital\<close> form the
  ledger state, passed in and returned. The \<open>Map\<close> of positions is an association list in
  insertion order (\<open>Map.set\<close> is \<open>AList.update\<close>, \<open>Map.delete\<close> is \<open>AList.delete\<close>,
  \<open>Map.get\<close> is \<open>map_of\<close>). A trade's \<open>id\<close> and \<open>timestamp\<close> come from the clock and a
  random generator and are left out. The \<open>reason\<close> is passed through untouched, so its type
  is a parameter. \<open>saveState\<close> copies the state to storage inside a \<open>try\<close> and changes
  nothing in memory.
\<close>

datatype TradeAction = BUY | SELL

record PositionEntry =
  shares :: real
  avgCost :: real

record 'r Trade =
  t_symbol :: string
  t_action :: TradeAction
  t_shares :: real
  t_price :: real
  t_total :: real
  t_reason :: 'r
  t_argusScore :: real

record 'r Ledger =
  cash :: real
  positions :: "(string \<times> PositionEntry) list"
  trades :: "'r Trade list"
  startingCapital :: real

definition INITIAL_CAPITAL :: real where
  "INITIAL_CAPITAL = 100000"

definition MAX_POSITION_SIZE :: real where
  "MAX_POSITION_SIZE = 0.20"


definition newLedger :: "'r Ledger" where
  \<comment> \<open>The field initialisers of the class, which \<open>reset\<close> restores.\<close>
  "newLedger = \<lparr>cash = INITIAL_CAPITAL, positions = [], trades = [],
                 startingCapital = INITIAL_CAPITAL\<rparr>"

definition priceOr :: "(string \<rightharpoonup> real) \<Rightarrow> string \<Rightarrow> real \<Rightarrow> real" where
  \<comment> \<open>\<open>prices.get(symbol) || pos.avgCost\<close>: a missing price and the price 0 are falsy.\<close>
  "priceOr prices symbol fallback =
     (case prices symbol of
        None \<Rightarrow> fallback
      | Some p \<Rightarrow> if p = 0 then fallback else p)"

definition getTotalValue :: "'r Ledger \<Rightarrow> (string \<rightharpoonup> real) \<Rightarrow> real" where
  "getTotalValue L prices =
     foldl (\<lambda>total (symbol, pos). total + shares pos * priceOr prices symbol (avgCost pos))
       (cash L) (positions L)"

text \<open>
  \<open>buy\<close> returns the new state with the value returned (\<open>None\<close> for \<open>null\<close>). The outer
  \<open>None\<close> marks the two places where the program computes \<open>Infinity\<close> or \<open>NaN\<close>:
  \<open>investment / price\<close> at price 0 (then \<open>shares\<close> is \<open>Infinity\<close>, passes the test
  \<open>shares < 1\<close>, and \<open>total\<close> is \<open>NaN\<close>), and \<open>totalCost / totalShares\<close> at 0 shares.
\<close>

definition buy ::
  "'r Ledger \<Rightarrow> string \<Rightarrow> real \<Rightarrow> 'r \<Rightarrow> real \<Rightarrow> ('r Ledger \<times> 'r Trade option) option" where
  "buy L symbol price reason argusScore =
     (let maxInvestment = getTotalValue L (Map.empty(symbol \<mapsto> price)) * MAX_POSITION_SIZE;
          investment = min maxInvestment (cash L * 0.9)
      in if investment < 100 then Some (L, None)
         else if price = 0 then None
         else
           let nshares = Math_floor (investment / price)
           in if nshares < 1 then Some (L, None)
              else
                let total = nshares * price;
                    trade = \<lparr>t_symbol = symbol, t_action = BUY, t_shares = nshares,
                             t_price = price, t_total = total, t_reason = reason,
                             t_argusScore = argusScore\<rparr>
                in case map_of (positions L) symbol of
                     Some existing \<Rightarrow>
                       let totalShares = shares existing + nshares;
                           totalCost = shares existing * avgCost existing + total
                       in if totalShares = 0 then None
                          else Some
                            (L\<lparr>cash := cash L - total,
                               positions := AList.update symbol
                                 \<lparr>shares = totalShares, avgCost = totalCost / totalShares\<rparr>
                                 (positions L),
                               trades := trade # trades L\<rparr>,
                             Some trade)
                   | None \<Rightarrow>
                       Some
                         (L\<lparr>cash := cash L - total,
                            positions := AList.update symbol
                              \<lparr>shares = nshares, avgCost = price\<rparr> (positions L),
                            trades := trade # trades L\<rparr>,
                          Some trade))"

definition sell ::
  "'r Ledger \<Rightarrow> string \<Rightarrow> real \<Rightarrow> 'r \<Rightarrow> real \<Rightarrow> bool \<Rightarrow> 'r Ledger \<times> 'r Trade option" where
  "sell L symbol price reason argusScore sellAll =
     (case map_of (positions L) symbol of
        None \<Rightarrow> (L, None)
      | Some position \<Rightarrow>
          if shares position \<le> 0 then (L, None)
          else
            let sharesToSell =
                  (if sellAll then shares position else Math_ceil (shares position / 2));
                total = sharesToSell * price;
                trade = \<lparr>t_symbol = symbol, t_action = SELL, t_shares = sharesToSell,
                         t_price = price, t_total = total, t_reason = reason,
                         t_argusScore = argusScore\<rparr>
            in (L\<lparr>cash := cash L + total,
                  positions :=
                    (if sellAll then AList.delete symbol (positions L)
                     else AList.update symbol
                            \<lparr>shares = shares position - sharesToSell,
                             avgCost = avgCost position\<rparr> (positions L)),
                  trades := trade # trades L\<rparr>,
                Some trade))"

definition getPosition :: "'r Ledger \<Rightarrow> string \<Rightarrow> PositionEntry option" where
  "getPosition L symbol = map_of (positions L) symbol"


subsection \<open>Sequences of ledger operations\<close>

datatype 'r LedgerOp =
  OpBuy string real 'r real
| OpSell string real 'r real bool

fun opPrice :: "'r LedgerOp \<Rightarrow> real" where
  "opPrice (OpBuy symbol price reason score) = price"
| "opPrice (OpSell symbol price reason score sellAll) = price"

fun applyOp :: "'r Ledger \<Rightarrow> 'r LedgerOp \<Rightarrow> 'r Ledger option" where
  "applyOp L (OpBuy symbol price reason score) =
     map_option fst (buy L symbol price reason score)"
| "applyOp L (OpSell symbol price reason score sellAll) =
     Some (fst (sell L symbol price reason score sellAll))"

fun run :: "'r Ledger \<Rightarrow> 'r LedgerOp list \<Rightarrow> 'r Ledger option" where
  "run L [] = Some L"
| "run L (x # xs) = (case applyOp L x of None \<Rightarrow> None | Some L' \<Rightarrow> run L' xs)"

definition debited :: "'r Trade list \<Rightarrow> real" where
  \<comment> \<open>The sum of the amounts of the recorded buys.\<close>
  "debited ts = sum_list (map t_total (filter (\<lambda>t. t_action t = BUY) ts))"

definition credited :: "'r Trade list \<Rightarrow> real" where
  \<comment> \<open>The sum of the amounts of the recorded sells.\<close>
  "credited ts = sum_list (map t_total (filter (\<lambda>t. t_action t = SELL) ts))"

section \<open>AITradingAgent: one symbol of the watchlist\<close>









section \<open>MultiAIBrokerService: the trader pool\<close>

datatype AIPersonality =
  P_aggressive | P_balanced | P_conservative | P_high_frequency | P_value

record Thresholds =
  buyScore :: real
  sellScore :: real
  positionSize :: real
  maxPositions :: nat
  stopLoss :: real
  takeProfit :: real
  symbols :: "string list"

fun THRESHOLDS :: "AIPersonality \<Rightarrow> Thresholds" where
  "THRESHOLDS P_aggressive =
     \<lparr>buyScore = 58, sellScore = 42, positionSize = 0.25, maxPositions = 4,
      stopLoss = 0.06, takeProfit = 0.12,
      symbols = [''NVDA'', ''AMD'', ''TSLA'', ''PLTR'', ''META'', ''MSFT'']\<rparr>"
| "THRESHOLDS P_balanced =
     \<lparr>buyScore = 62, sellScore = 38, positionSize = 0.20, maxPositions = 5,
      stopLoss = 0.05, takeProfit = 0.10,
      symbols = [''AAPL'', ''MSFT'', ''GOOGL'', ''AMZN'', ''V'', ''MA'']\<rparr>"
| "THRESHOLDS P_conservative =
     \<lparr>buyScore = 70, sellScore = 30, positionSize = 0.15, maxPositions = 6,
      stopLoss = 0.04, takeProfit = 0.08,
      symbols = [''JNJ'', ''PG'', ''XOM'', ''V'', ''GC=F'', ''KO'']\<rparr>"
| "THRESHOLDS P_high_frequency =
     \<lparr>buyScore = 50, sellScore = 50, positionSize = 0.10, maxPositions = 10,
      stopLoss = 0.015, takeProfit = 0.03,
      symbols = [''COIN'', ''MSTR'', ''RIOT'', ''MARA'', ''PLTR'', ''AMD'']\<rparr>"
| "THRESHOLDS P_value =
     \<lparr>buyScore = 75, sellScore = 25, positionSize = 0.25, maxPositions = 4,
      stopLoss = 0.08, takeProfit = 0.25,
      symbols = [''BRK-B'', ''JPM'', ''UNH'', ''CVX'', ''MCD'', ''PEP'']\<rparr>"

text \<open>
  The four reason texts of the pool, with the symbol and the number each one prints. A
  trade's \<open>id\<close> and \<open>timestamp\<close> come from the clock and are left out.
\<close>

datatype AIReason =
  StopLossMsg string real
| TakeProfitMsg string real
| SellMsg string real
| BuyMsg string real

record AIPosition =
  p_symbol :: string
  p_shares :: real
  p_avgCost :: real
  p_currentPrice :: real
  p_pnl :: real
  p_pnlPercent :: real

record AITrade =
  a_symbol :: string
  a_action :: TradeAction
  a_price :: real
  a_shares :: real
  a_amount :: real
  a_reason :: AIReason
  a_pnl :: "real option"

text \<open>
  \<open>AITrader\<close> without its display fields (name, emoji, description, last thought) and
  without the statistics that \<open>updateTraderStats\<close> recomputes from the fields kept here.
\<close>

record AITrader =
  trader_id :: AIPersonality
  initialCapital :: real
  currentCash :: real
  ai_positions :: "(string \<times> AIPosition) list"
  ai_trades :: "AITrade list"
  tradeCount :: nat

definition initializeTrader :: "AIPersonality \<Rightarrow> AITrader" where
  "initializeTrader personality =
     \<lparr>trader_id = personality, initialCapital = 1000, currentCash = 1000,
      ai_positions = [], ai_trades = [], tradeCount = 0\<rparr>"

definition executeBuy ::
  "AITrader \<Rightarrow> string \<Rightarrow> real \<Rightarrow> real \<Rightarrow> AIReason \<Rightarrow> AITrader option" where
  \<comment> \<open>\<open>None\<close>: \<open>amount / price\<close> at price 0.\<close>
  "executeBuy trader symbol price amount reason =
     (if price = 0 then None
      else
        let nshares = amount / price;
            trade = \<lparr>a_symbol = symbol, a_action = BUY, a_price = price, a_shares = nshares,
                     a_amount = amount, a_reason = reason, a_pnl = None\<rparr>
        in Some
             (trader\<lparr>currentCash := currentCash trader - amount,
                     ai_positions := AList.update symbol
                       \<lparr>p_symbol = symbol, p_shares = nshares, p_avgCost = price,
                        p_currentPrice = price, p_pnl = 0, p_pnlPercent = 0\<rparr>
                       (ai_positions trader),
                     ai_trades := trade # ai_trades trader,
                     tradeCount := tradeCount trader + 1\<rparr>))"

definition executeSell :: "AITrader \<Rightarrow> string \<Rightarrow> real \<Rightarrow> AIReason \<Rightarrow> AITrader" where
  "executeSell trader symbol price reason =
     (case map_of (ai_positions trader) symbol of
        None \<Rightarrow> trader
      | Some position \<Rightarrow>
          let amount = p_shares position * price;
              pnl = (price - p_avgCost position) * p_shares position;
              trade = \<lparr>a_symbol = symbol, a_action = SELL, a_price = price,
                       a_shares = p_shares position, a_amount = amount, a_reason = reason,
                       a_pnl = Some pnl\<rparr>
          in trader\<lparr>currentCash := currentCash trader + amount,
                    ai_positions := AList.delete symbol (ai_positions trader),
                    ai_trades := trade # ai_trades trader,
                    tradeCount := tradeCount trader + 1\<rparr>)"

text \<open>
  The body of the loop over \<open>config.symbols\<close>, after the fetches and the decision: the
  quote's price and the decision are arguments. \<open>None\<close>: a division by an average cost or
  a price of 0.
\<close>

definition tradeSymbol ::
  "Thresholds \<Rightarrow> AITrader \<Rightarrow> string \<Rightarrow> real \<Rightarrow> ArgusDecision \<Rightarrow> AITrader option" where
  "tradeSymbol config trader symbol price decision =
     (case map_of (ai_positions trader) symbol of
        Some position \<Rightarrow>
          if p_avgCost position = 0 then None
          else
            let pnlPercent = ((price - p_avgCost position) / p_avgCost position) * 100;
                trader' = trader\<lparr>ai_positions := AList.update symbol
                            (position\<lparr>p_currentPrice := price,
                                      p_pnl := (price - p_avgCost position) * p_shares position,
                                      p_pnlPercent := pnlPercent\<rparr>)
                            (ai_positions trader)\<rparr>
            in if pnlPercent \<le> - (stopLoss config * 100)
                 then Some (executeSell trader' symbol price (StopLossMsg symbol pnlPercent))
               else if pnlPercent \<ge> takeProfit config * 100
                 then Some (executeSell trader' symbol price (TakeProfitMsg symbol pnlPercent))
               else if compositeScore decision < sellScore config
                 then Some (executeSell trader' symbol price
                              (SellMsg symbol (compositeScore decision)))
               else Some trader'
      | None \<Rightarrow>
          if compositeScore decision \<ge> buyScore config then
            (let positionCount = length (ai_positions trader)
             in if positionCount < maxPositions config then
                  (let amount = currentCash trader * positionSize config
                   in if amount \<ge> 10 \<and> currentCash trader \<ge> amount
                        then executeBuy trader symbol price amount
                               (BuyMsg symbol (compositeScore decision))
                      else Some trader)
                else Some trader)
          else Some trader)"

text \<open>
  One tick of one trader. \<open>fetch\<close> gives, for a symbol, the quote's price and the decision,
  or \<open>None\<close> when a fetch or an engine throws: the \<open>catch\<close> then skips the symbol.
\<close>

fun tradeSymbols ::
  "Thresholds \<Rightarrow> (string \<Rightarrow> (real \<times> ArgusDecision) option) \<Rightarrow> string list \<Rightarrow> AITrader
     \<Rightarrow> AITrader option" where
  "tradeSymbols config fetch [] trader = Some trader"
| "tradeSymbols config fetch (symbol # rest) trader =
     (case fetch symbol of
        None \<Rightarrow> tradeSymbols config fetch rest trader
      | Some (price, decision) \<Rightarrow>
          (case tradeSymbol config trader symbol price decision of
             None \<Rightarrow> None
           | Some trader' \<Rightarrow> tradeSymbols config fetch rest trader'))"

definition analyzeAndTrade ::
  "(string \<Rightarrow> (real \<times> ArgusDecision) option) \<Rightarrow> AIPersonality \<Rightarrow> AITrader \<Rightarrow> AITrader option" where
  "analyzeAndTrade fetch personality trader =
     tradeSymbols (THRESHOLDS personality) fetch (symbols (THRESHOLDS personality)) trader"

fun runTicks ::
  "AIPersonality \<Rightarrow> (string \<Rightarrow> (real \<times> ArgusDecision) option) list \<Rightarrow> AITrader
     \<Rightarrow> AITrader option" where
  "runTicks personality [] trader = Some trader"
| "runTicks personality (fetch # later) trader =
     (case analyzeAndTrade fetch personality trader of
        None \<Rightarrow> None
      | Some trader' \<Rightarrow> runTicks personality later trader')"

definition ai_debited :: "AITrade list \<Rightarrow> real" where
  "ai_debited ts = sum_list (map a_amount (filter (\<lambda>t. a_action t = BUY) ts))"

definition ai_credited :: "AITrade list \<Rightarrow> real" where
  "ai_credited ts = sum_list (map a_amount (filter (\<lambda>t. a_action t = SELL) ts))"

section \<open>Properties: vocabulary and sample values\<close>

subsection \<open>Decision synthesis\<close>

definition nonnegWeights :: "ModuleWeights \<Rightarrow> bool" where
  "nonnegWeights w \<longleftrightarrow>
     0 \<le> atlas w \<and> 0 \<le> orion w \<and> 0 \<le> aether w \<and> 0 \<le> demeter w
       \<and> 0 \<le> phoenix w \<and> 0 \<le> hermes w \<and> 0 \<le> athena w \<and> 0 \<le> cronos w"

definition inRange :: "real option \<Rightarrow> bool" where
  "inRange s \<longleftrightarrow> (case s of None \<Rightarrow> True | Some v \<Rightarrow> 0 \<le> v \<and> v \<le> 100)"

definition scoresInRange :: "ModuleInputs \<Rightarrow> bool" where
  "scoresInRange inputs \<longleftrightarrow>
     inRange (in_atlas inputs) \<and> inRange (in_orion inputs) \<and> inRange (in_phoenix inputs)
       \<and> inRange (in_aether inputs) \<and> inRange (in_demeter inputs) \<and> inRange (in_cronos inputs)"

definition learnedNonneg :: "StoredWeights option \<Rightarrow> bool" where
  "learnedNonneg dynamicConfig \<longleftrightarrow>
     (case dynamicConfig of
        None \<Rightarrow> True
      | Some learned \<Rightarrow> nonnegWeights (coreWeights learned) \<and> nonnegWeights (pulseWeights learned))"

definition reporting :: "ModuleInputs \<Rightarrow> nat" where
  "reporting inputs =
     length (filter (\<lambda>s. s \<noteq> None)
       [in_atlas inputs, in_orion inputs, in_phoenix inputs, in_aether inputs,
        in_demeter inputs, in_cronos inputs])
     + (case newsSentiment inputs of None \<Rightarrow> 0 | Some s \<Rightarrow> 1)"

definition modulesReporting :: "ModuleInputs \<Rightarrow> nat" where
  \<comment> \<open>How many of the six signal modules report, the news sentiment left aside.\<close>
  "modulesReporting inputs =
     length (filter (\<lambda>s. s \<noteq> None)
       [in_atlas inputs, in_orion inputs, in_phoenix inputs, in_aether inputs,
        in_demeter inputs, in_cronos inputs])"

definition noScores :: "ModuleInputs \<Rightarrow> bool" where
  "noScores inputs \<longleftrightarrow>
     in_atlas inputs = None \<and> in_orion inputs = None \<and> in_phoenix inputs = None
       \<and> in_aether inputs = None \<and> in_demeter inputs = None \<and> in_cronos inputs = None
       \<and> newsSentiment inputs = None"

definition zeroWeights :: ModuleWeights where
  "zeroWeights = \<lparr>atlas = 0, orion = 0, aether = 0, demeter = 0, phoenix = 0, hermes = 0,
                   athena = 0, cronos = 0\<rparr>"

definition twoStrongInputs :: ModuleInputs where
  "twoStrongInputs =
     \<lparr>in_atlas = Some 90, in_orion = Some 90, in_phoenix = None, in_aether = None,
      in_demeter = None, in_cronos = None, newsSentiment = None, in_symbol = ''AAPL''\<rparr>"

definition w21 :: ModuleWeights where
  "w21 = \<lparr>atlas = 2, orion = 1, aether = 0, demeter = 0, phoenix = 0, hermes = 0,
              athena = 0, cronos = 0\<rparr>"

definition emptyInputs :: ModuleInputs where
  "emptyInputs =
     \<lparr>in_atlas = None, in_orion = None, in_phoenix = None, in_aether = None,
      in_demeter = None, in_cronos = None, newsSentiment = None, in_symbol = ''UNKNOWN''\<rparr>"

definition sentimentOne :: ModuleInputs where
  "sentimentOne =
     \<lparr>in_atlas = None, in_orion = None, in_phoenix = None, in_aether = None,
      in_demeter = None, in_cronos = None,
      newsSentiment = Some \<lparr>ns_score = 1, ns_summary = ''positive''\<rparr>, in_symbol = ''AAPL''\<rparr>"

definition exampleInputs :: ModuleInputs where
  "exampleInputs =
     \<lparr>in_atlas = Some 80, in_orion = Some 60, in_phoenix = Some 45, in_aether = None,
      in_demeter = None, in_cronos = None,
      newsSentiment = Some \<lparr>ns_score = 0.4, ns_summary = ''mixed''\<rparr>, in_symbol = ''AAPL''\<rparr>"

definition atlasOrionInputs :: ModuleInputs where
  \<comment> \<open>What \<open>makeDecisionLegacy\<close> passes on: a fundamental and a technical result only.\<close>
  "atlasOrionInputs =
     \<lparr>in_atlas = Some 40, in_orion = Some 88, in_phoenix = None, in_aether = None,
      in_demeter = None, in_cronos = None, newsSentiment = None, in_symbol = ''UNKNOWN''\<rparr>"

definition twoAndNewsInputs :: ModuleInputs where
  "twoAndNewsInputs =
     \<lparr>in_atlas = Some 90, in_orion = Some 90, in_phoenix = None, in_aether = None,
      in_demeter = None, in_cronos = None,
      newsSentiment = Some \<lparr>ns_score = 0.5, ns_summary = ''positive''\<rparr>, in_symbol = ''AAPL''\<rparr>"

subsection \<open>The ledger\<close>

definition sizedInvestment :: "'r Ledger \<Rightarrow> string \<Rightarrow> real \<Rightarrow> real" where
  \<comment> \<open>The local \<open>investment\<close> of \<open>buy\<close>.\<close>
  "sizedInvestment L symbol price =
     min (getTotalValue L (Map.empty(symbol \<mapsto> price)) * MAX_POSITION_SIZE) (cash L * 0.9)"

definition balanced :: "'r Ledger \<Rightarrow> bool" where
  "balanced L \<longleftrightarrow> cash L = startingCapital L - debited (trades L) + credited (trades L)"

definition wholeShares :: "'r Ledger \<Rightarrow> bool" where
  \<comment> \<open>Every share count in the map is a whole number and not negative.\<close>
  "wholeShares L \<longleftrightarrow> (\<forall>(symbol, pos) \<in> set (positions L). shares pos \<in> \<int> \<and> 0 \<le> shares pos)"

definition positiveShares :: "'r Ledger \<Rightarrow> bool" where
  \<comment> \<open>Every position in the map holds a whole, strictly positive number of shares.\<close>
  "positiveShares L \<longleftrightarrow> (\<forall>(symbol, pos) \<in> set (positions L). shares pos \<in> \<int> \<and> 0 < shares pos)"

definition sound :: "'r Ledger \<Rightarrow> bool" where
  "sound L \<longleftrightarrow> balanced L \<and> 0 \<le> cash L \<and> wholeShares L"

subsection \<open>The trader pool\<close>

definition pnlPercentOf :: "AIPosition \<Rightarrow> real \<Rightarrow> real" where
  \<comment> \<open>The value stored in \<open>position.pnlPercent\<close> at the head of the exit checks.\<close>
  "pnlPercentOf position price = ((price - p_avgCost position) / p_avgCost position) * 100"

definition repriced :: "AITrader \<Rightarrow> string \<Rightarrow> AIPosition \<Rightarrow> real \<Rightarrow> AITrader" where
  \<comment> \<open>The trader after the three assignments to the held position.\<close>
  "repriced trader symbol position price =
     trader\<lparr>ai_positions := AList.update symbol
       (position\<lparr>p_currentPrice := price,
                 p_pnl := (price - p_avgCost position) * p_shares position,
                 p_pnlPercent := pnlPercentOf position price\<rparr>)
       (ai_positions trader)\<rparr>"

definition sellTrade :: "string \<Rightarrow> AIPosition \<Rightarrow> real \<Rightarrow> AIReason \<Rightarrow> AITrade" where
  \<comment> \<open>The trade that \<open>executeSell\<close> records for a held position.\<close>
  "sellTrade symbol position price reason =
     \<lparr>a_symbol = symbol, a_action = SELL, a_price = price, a_shares = p_shares position,
      a_amount = p_shares position * price, a_reason = reason,
      a_pnl = Some ((price - p_avgCost position) * p_shares position)\<rparr>"

definition stepTrades :: "Thresholds \<Rightarrow> AITrader \<Rightarrow> string \<Rightarrow> real \<Rightarrow> ArgusDecision \<Rightarrow> AITrade list" where
  "stepTrades cfg t s price d =
     (case map_of (ai_positions t) s of
        Some pos \<Rightarrow>
          if pnlPercentOf pos price \<le> - (stopLoss cfg * 100)
            then [sellTrade s pos price (StopLossMsg s (pnlPercentOf pos price))]
          else if pnlPercentOf pos price \<ge> takeProfit cfg * 100
            then [sellTrade s pos price (TakeProfitMsg s (pnlPercentOf pos price))]
          else if compositeScore d < sellScore cfg
            then [sellTrade s pos price (SellMsg s (compositeScore d))]
          else []
      | None \<Rightarrow>
          if compositeScore d \<ge> buyScore cfg \<and> length (ai_positions t) < maxPositions cfg
               \<and> currentCash t * positionSize cfg \<ge> 10
               \<and> currentCash t \<ge> currentCash t * positionSize cfg
            then [\<lparr>a_symbol = s, a_action = BUY, a_price = price,
                   a_shares = currentCash t * positionSize cfg / price,
                   a_amount = currentCash t * positionSize cfg,
                   a_reason = BuyMsg s (compositeScore d), a_pnl = None\<rparr>]
          else [])"


definition ai_balanced :: "AITrader \<Rightarrow> bool" where
  "ai_balanced t \<longleftrightarrow>
     currentCash t = initialCapital t - ai_debited (ai_trades t) + ai_credited (ai_trades t)"

definition posOK :: "(string \<times> AIPosition) list \<Rightarrow> bool" where
  "posOK ps \<longleftrightarrow> (\<forall>(symbol, pos) \<in> set ps. 0 \<le> p_shares pos \<and> p_avgCost pos \<noteq> 0)"

definition ai_sound :: "AITrader \<Rightarrow> bool" where
  "ai_sound t \<longleftrightarrow>
     ai_balanced t \<and> 0 \<le> currentCash t
       \<and> (\<forall>(symbol, pos) \<in> set (ai_positions t). 0 \<le> p_shares pos \<and> p_avgCost pos \<noteq> 0)"

definition positivePrices :: "(string \<Rightarrow> (real \<times> ArgusDecision) option) \<Rightarrow> bool" where
  "positivePrices fetch \<longleftrightarrow> (\<forall>symbol price decision. fetch symbol = Some (price, decision) \<longrightarrow> 0 < price)"

subsection \<open>Sample markets, traders and ledgers\<close>

definition poolInputs :: "string \<Rightarrow> real \<Rightarrow> ModuleInputs" where
  \<comment> \<open>The inputs the pool passes to \<open>makeDecision\<close>, the four engines all reporting \<open>v\<close>.\<close>
  "poolInputs symbol v =
     \<lparr>in_atlas = Some v, in_orion = Some v, in_phoenix = Some v, in_aether = Some v,
      in_demeter = None, in_cronos = None, newsSentiment = None, in_symbol = symbol\<rparr>"

definition quoteFor :: "string \<Rightarrow> real \<Rightarrow> real \<Rightarrow> string \<Rightarrow> (real \<times> ArgusDecision) option" where
  \<comment> \<open>A market in which only \<open>symbol\<close> can be fetched.\<close>
  "quoteFor symbol price v =
     (\<lambda>s. if s = symbol then Some (price, makeDecision None (poolInputs symbol v)) else None)"

definition weakDecision :: ArgusDecision where
  "weakDecision = makeDecision None (poolInputs ''NVDA'' 30)"

definition strongDecision :: ArgusDecision where
  "strongDecision = makeDecision None (poolInputs ''NVDA'' 70)"

definition heldPosition :: AIPosition where
  "heldPosition = \<lparr>p_symbol = ''NVDA'', p_shares = 2.5, p_avgCost = 100, p_currentPrice = 100,
                    p_pnl = 0, p_pnlPercent = 0\<rparr>"

definition heldTrader :: AITrader where
  "heldTrader =
     \<lparr>trader_id = P_aggressive, initialCapital = 1000, currentCash = 750,
      ai_positions = [(''NVDA'', heldPosition)],
      ai_trades = [\<lparr>a_symbol = ''NVDA'', a_action = BUY, a_price = 100, a_shares = 2.5,
                    a_amount = 250, a_reason = BuyMsg ''NVDA'' 60, a_pnl = None\<rparr>],
      tradeCount = 1\<rparr>"

definition soldTrader :: AITrader where
  "soldTrader =
     \<lparr>trader_id = P_aggressive, initialCapital = 1000, currentCash = 975,
      ai_positions = [],
      ai_trades = sellTrade ''NVDA'' heldPosition 90 (StopLossMsg ''NVDA'' (- 10))
                    # ai_trades heldTrader,
      tradeCount = 2\<rparr>"

definition firstPoolTrade :: AITrade where
  "firstPoolTrade = \<lparr>a_symbol = ''NVDA'', a_action = BUY, a_price = 100, a_shares = 2.5,
                      a_amount = 250, a_reason = BuyMsg ''NVDA'' 60, a_pnl = None\<rparr>"

definition heldLedger :: "string Ledger" where
  "heldLedger = \<lparr>cash = 4800, positions = [(''AAPL'', \<lparr>shares = 10, avgCost = 100\<rparr>)],
                 trades = [\<lparr>t_symbol = ''AAPL'', t_action = BUY, t_shares = 10, t_price = 100,
                            t_total = 1000, t_reason = ''entry'', t_argusScore = 70\<rparr>],
                 startingCapital = 5800\<rparr>"

definition addTrade :: "string Trade" where
  "addTrade = \<lparr>t_symbol = ''AAPL'', t_action = BUY, t_shares = 10, t_price = 120,
                t_total = 1200, t_reason = ''add'', t_argusScore = 70\<rparr>"

definition addedLedger :: "string Ledger" where
  "addedLedger = \<lparr>cash = 3600, positions = [(''AAPL'', \<lparr>shares = 20, avgCost = 110\<rparr>)],
                  trades = addTrade # trades heldLedger, startingCapital = 5800\<rparr>"

definition smallLedger :: "'r Ledger" where
  "smallLedger = \<lparr>cash = 100, positions = [], trades = [], startingCapital = 100\<rparr>"


definition paperOps :: "string LedgerOp list" where
  "paperOps = [OpBuy ''AAPL'' 150 ''entry'' 70, OpSell ''AAPL'' 160 ''exit'' 30 True]"

definition firstTrade :: "string Trade" where
  "firstTrade = \<lparr>t_symbol = ''AAPL'', t_action = BUY, t_shares = 133, t_price = 150,
                  t_total = 19950, t_reason = ''entry'', t_argusScore = 70\<rparr>"

definition firstLedger :: "string Ledger" where
  "firstLedger = \<lparr>cash = 80050, positions = [(''AAPL'', \<lparr>shares = 133, avgCost = 150\<rparr>)],
                  trades = [firstTrade], startingCapital = 100000\<rparr>"

section \<open>Weight vectors\<close>

lemma eight_quotients:
  fixes s :: real
  assumes "s \<noteq> 0" and "a + b + c + d + e + f + g + h = s"
  shows "a / s + b / s + c / s + d / s + e / s + f / s + g / s + h / s = 1"
proof -
  have "a / s + b / s + c / s + d / s + e / s + f / s + g / s + h / s
          = (a + b + c + d + e + f + g + h) / s"
    by (simp add: add_divide_distrib)
  then show ?thesis using assms by simp
qed

lemma weightSum_normalize:
  assumes "weightSum w \<noteq> 0"
  shows "weightSum (normalizeWeights w) = 1"
proof -
  define s where "s = weightSum w"
  have s0: "s \<noteq> 0" using assms by (simp add: s_def)
  have total: "atlas w + orion w + aether w + demeter w + phoenix w + hermes w + athena w
                 + cronos w = s"
    by (simp add: s_def weightSum_def)
  have nw: "normalizeWeights w =
      \<lparr>atlas = atlas w / s, orion = orion w / s, aether = aether w / s,
       demeter = demeter w / s, phoenix = phoenix w / s, hermes = hermes w / s,
       athena = athena w / s, cronos = cronos w / s\<rparr>"
    using s0 unfolding normalizeWeights_def Let_def s_def by simp
  have "weightSum (normalizeWeights w) =
      atlas w / s + orion w / s + aether w / s + demeter w / s + phoenix w / s + hermes w / s
        + athena w / s + cronos w / s"
    unfolding nw weightSum_def by simp
  also have "\<dots> = 1" by (rule eight_quotients [OF s0 total])
  finally show ?thesis .
qed

lemma normalizeWeights_zero_sum: "weightSum w = 0 \<Longrightarrow> normalizeWeights w = w"
  by (simp add: normalizeWeights_def)

lemma weightSum_zeroWeights: "weightSum zeroWeights = 0"
  by (simp add: weightSum_def zeroWeights_def)

text \<open>
  Claim C7. For every weight vector whose eight slots have a non-zero sum,
  \<open>normalizeWeights\<close> returns a vector whose slots sum to 1 (exactly, over the reals); a
  vector whose slots sum to 0, the all-zero vector among them, is returned unchanged.
\<close>

theorem normalizeWeights_sums_to_one:
  "(weightSum w \<noteq> 0 \<longrightarrow> weightSum (normalizeWeights w) = 1)
     \<and> (weightSum w = 0 \<longrightarrow> normalizeWeights w = w)
     \<and> normalizeWeights zeroWeights = zeroWeights"
  using weightSum_normalize [of w] normalizeWeights_zero_sum [of w]
    normalizeWeights_zero_sum [OF weightSum_zeroWeights]
  by blast

lemma weightSum_w21: "weightSum w21 = 3"
  by (simp add: weightSum_def w21_def)

theorem normalizeWeights_sums_to_one_witness:
  "weightSum w21 \<noteq> 0 \<and> weightSum (normalizeWeights w21) = 1
     \<and> weightSum zeroWeights = 0 \<and> normalizeWeights zeroWeights = zeroWeights"
  using normalizeWeights_sums_to_one [of w21]
  by (simp add: weightSum_w21 weightSum_zeroWeights)

section \<open>The composite score\<close>

lemma normalizeNews_range: "0 \<le> normalizeNews n \<and> normalizeNews n \<le> 100"
  by (simp add: normalizeNews_def)

lemma contribute_inv:
  assumes "inRange s" and "0 \<le> w" and "0 \<le> fst acc" and "fst acc \<le> 100 * snd acc" and "0 \<le> snd acc"
  shows "0 \<le> fst (contribute s w acc) \<and> fst (contribute s w acc) \<le> 100 * snd (contribute s w acc)
           \<and> 0 \<le> snd (contribute s w acc)"
proof (cases s)
  case None
  then show ?thesis using assms by (simp add: contribute_def)
next
  case (Some v)
  with assms have v: "0 \<le> v" "v \<le> 100" by (simp_all add: inRange_def)
  have "v * w \<le> 100 * w" using v assms(2) by (simp add: mult_right_mono)
  moreover have "0 \<le> v * w" using v assms(2) by simp
  ultimately show ?thesis using Some assms by (simp add: contribute_def algebra_simps)
qed

lemma inRange_news: "inRange (map_option normalizeNews n)"
  by (cases n) (simp_all add: inRange_def normalizeNews_def)

lemma calculateWeightedScore_range:
  assumes w: "nonnegWeights w"
    and s: "inRange (ms_atlas sc)" "inRange (ms_orion sc)" "inRange (ms_phoenix sc)"
      "inRange (ms_aether sc)" "inRange (ms_demeter sc)" "inRange (ms_cronos sc)"
  shows "0 \<le> calculateWeightedScore sc w \<and> calculateWeightedScore sc w \<le> 100"
proof -
  define a1 where "a1 = contribute (ms_atlas sc) (atlas w) (0, 0)"
  define a2 where "a2 = contribute (ms_orion sc) (orion w) a1"
  define a3 where "a3 = contribute (ms_phoenix sc) (phoenix w) a2"
  define a4 where "a4 = contribute (ms_aether sc) (aether w) a3"
  define a5 where "a5 = contribute (ms_demeter sc) (demeter w) a4"
  define a6 where "a6 = contribute (ms_cronos sc) (cronos w) a5"
  define a7 where "a7 = contribute (map_option normalizeNews (ms_news sc)) (hermes w) a6"
  have nn: "0 \<le> atlas w" "0 \<le> orion w" "0 \<le> phoenix w" "0 \<le> aether w"
    "0 \<le> demeter w" "0 \<le> cronos w" "0 \<le> hermes w"
    using w by (simp_all add: nonnegWeights_def)
  have i1: "0 \<le> fst a1 \<and> fst a1 \<le> 100 * snd a1 \<and> 0 \<le> snd a1"
    unfolding a1_def by (rule contribute_inv) (use s nn in simp_all)
  have i2: "0 \<le> fst a2 \<and> fst a2 \<le> 100 * snd a2 \<and> 0 \<le> snd a2"
    unfolding a2_def by (rule contribute_inv) (use s nn i1 in simp_all)
  have i3: "0 \<le> fst a3 \<and> fst a3 \<le> 100 * snd a3 \<and> 0 \<le> snd a3"
    unfolding a3_def by (rule contribute_inv) (use s nn i2 in simp_all)
  have i4: "0 \<le> fst a4 \<and> fst a4 \<le> 100 * snd a4 \<and> 0 \<le> snd a4"
    unfolding a4_def by (rule contribute_inv) (use s nn i3 in simp_all)
  have i5: "0 \<le> fst a5 \<and> fst a5 \<le> 100 * snd a5 \<and> 0 \<le> snd a5"
    unfolding a5_def by (rule contribute_inv) (use s nn i4 in simp_all)
  have i6: "0 \<le> fst a6 \<and> fst a6 \<le> 100 * snd a6 \<and> 0 \<le> snd a6"
    unfolding a6_def by (rule contribute_inv) (use s nn i5 in simp_all)
  have i7: "0 \<le> fst a7 \<and> fst a7 \<le> 100 * snd a7 \<and> 0 \<le> snd a7"
    unfolding a7_def by (rule contribute_inv) (use s nn i6 inRange_news in simp_all)
  have eq: "calculateWeightedScore sc w = (if snd a7 = 0 then 50 else fst a7 / snd a7)"
    by (simp add: calculateWeightedScore_def Let_def a1_def a2_def a3_def a4_def a5_def a6_def a7_def)
  show ?thesis
  proof (cases "snd a7 = 0")
    case True
    then show ?thesis by (simp add: eq)
  next
    case False
    with i7 have pos: "0 < snd a7" by simp
    then show ?thesis using i7 by (simp add: eq divide_le_eq)
  qed
qed

lemma Math_round_range:
  assumes "0 \<le> x" and "x \<le> 100"
  shows "0 \<le> Math_round x \<and> Math_round x \<le> 100"
proof -
  have "(0::int) \<le> \<lfloor>x + 1 / 2\<rfloor>" using assms(1) by simp
  moreover have "\<lfloor>x + 1 / 2\<rfloor> \<le> (100::int)"
  proof -
    have "x + 1 / 2 < 101" using assms(2) by simp
    then have "\<lfloor>x + 1 / 2\<rfloor> < (101::int)" by (simp add: floor_less_iff)
    then show ?thesis by simp
  qed
  ultimately show ?thesis unfolding Math_round_def by simp
qed

lemma getBaseWeights_nonneg:
  "nonnegWeights (core (getBaseWeights rg)) \<and> nonnegWeights (pulse (getBaseWeights rg))"
  by (cases rg) (simp_all add: getBaseWeights_def nonnegWeights_def)

lemma blendWeight_nonneg:
  "0 \<le> f \<Longrightarrow> f \<le> 1 \<Longrightarrow> nonnegWeights b \<Longrightarrow> nonnegWeights l
     \<Longrightarrow> nonnegWeights (blendWeight f b l)"
  by (simp add: nonnegWeights_def blendWeight_def)

lemma normalizeWeights_nonneg:
  assumes "nonnegWeights w"
  shows "nonnegWeights (normalizeWeights w)"
proof (cases "weightSum w = 0")
  case True
  then show ?thesis using assms by (simp add: normalizeWeights_def)
next
  case False
  have "0 \<le> weightSum w" using assms by (simp add: nonnegWeights_def weightSum_def)
  with False have "0 < weightSum w" by simp
  then show ?thesis using assms False
    by (simp add: normalizeWeights_def Let_def nonnegWeights_def)
qed

lemma evaluate_nonneg:
  assumes "learnedNonneg dyn"
  shows "nonnegWeights (r_coreWeights (evaluate dyn ctx)) \<and> nonnegWeights (r_pulseWeights (evaluate dyn ctx))"
proof (cases dyn)
  case None
  then show ?thesis 
    by (simp add: evaluate_def Let_def normalizeWeights_nonneg getBaseWeights_nonneg)
next
  case (Some l)
  with assms have "nonnegWeights (coreWeights l)" "nonnegWeights (pulseWeights l)"
    by (simp_all add: learnedNonneg_def)
  then show ?thesis using Some
    by (simp add: evaluate_def Let_def blendWeights_def normalizeWeights_nonneg
        blendWeight_nonneg getBaseWeights_nonneg)
qed

lemma compositeScore_eq:
  "compositeScore (makeDecision dynamicConfig inputs) =
     Math_round
       (0.40 * calculateWeightedScore (collectScores inputs)
                 (r_coreWeights (evaluate dynamicConfig (chironContext (collectScores inputs))))
        + 0.45 * calculateWeightedScore (collectScores inputs)
                 (r_pulseWeights (evaluate dynamicConfig (chironContext (collectScores inputs))))
        + 0.15 * max 0 (min 100 (50 + newsScore (makeDecision dynamicConfig inputs) / 2)))"
  by (simp add: makeDecision_def Let_def normalizeNews_def mult.commute)

lemma compositeScore_range:
  assumes h: "scoresInRange inputs" "learnedNonneg dynamicConfig"
  shows "0 \<le> compositeScore (makeDecision dynamicConfig inputs)
          \<and> compositeScore (makeDecision dynamicConfig inputs) \<le> 100"
proof -
  define sc where "sc = collectScores inputs"
  define ch where "ch = evaluate dynamicConfig (chironContext sc)"
  define c where "c = calculateWeightedScore sc (r_coreWeights ch)"
  define p where "p = calculateWeightedScore sc (r_pulseWeights ch)"
  define n where "n = normalizeNews (case ms_news sc of Some n \<Rightarrow> n | None \<Rightarrow> 0)"
  have r: "inRange (ms_atlas sc)" "inRange (ms_orion sc)" "inRange (ms_phoenix sc)"
      "inRange (ms_aether sc)" "inRange (ms_demeter sc)" "inRange (ms_cronos sc)"
    using h by (simp_all add: sc_def collectScores_def scoresInRange_def)
  have w: "nonnegWeights (r_coreWeights ch)" "nonnegWeights (r_pulseWeights ch)"
    using h evaluate_nonneg[of dynamicConfig "chironContext sc"] by (simp_all add: ch_def)
  have cb: "0 \<le> c \<and> c \<le> 100" unfolding c_def by (rule calculateWeightedScore_range[OF w(1) r])
  have pb: "0 \<le> p \<and> p \<le> 100" unfolding p_def by (rule calculateWeightedScore_range[OF w(2) r])
  have nb: "0 \<le> n \<and> n \<le> 100" unfolding n_def by (rule normalizeNews_range)
  have eq: "compositeScore (makeDecision dynamicConfig inputs) = Math_round (c * 0.4 + p * 0.45 + n * 0.15)"
    by (simp add: makeDecision_def Let_def c_def p_def n_def ch_def sc_def)
  have lo: "0 \<le> c * 0.4 + p * 0.45 + n * 0.15" using cb pb nb by simp
  have hi: "c * 0.4 + p * 0.45 + n * 0.15 \<le> 100" using cb pb nb by simp
  show ?thesis unfolding eq by (rule Math_round_range[OF lo hi])
qed

text \<open>
  The claim C2 as it is written, over the scores of the decision, fails: the fields
  \<open>coreScore\<close> and \<open>pulseScore\<close> are the two weighted averages rounded, and the
  composite is not computed from them. For a fundamental score of 40 and a technical score
  of 88 (no other module, no sentiment) the decision has coreScore 61, pulseScore 70 and
  newsScore 0, whose blend rounds to 63, and compositeScore 64.
\<close>

theorem composite_not_blend_of_rounded_scores:
  "coreScore (makeDecision None atlasOrionInputs) = 61
   \<and> pulseScore (makeDecision None atlasOrionInputs) = 70
   \<and> newsScore (makeDecision None atlasOrionInputs) = 0
   \<and> compositeScore (makeDecision None atlasOrionInputs) = 64
   \<and> Math_round
        (0.40 * coreScore (makeDecision None atlasOrionInputs)
         + 0.45 * pulseScore (makeDecision None atlasOrionInputs)
         + 0.15 * max 0 (min 100 (50 + newsScore (makeDecision None atlasOrionInputs) / 2)))
       = 63
   \<and> compositeScore (makeDecision None atlasOrionInputs) \<noteq>
       Math_round
        (0.40 * coreScore (makeDecision None atlasOrionInputs)
         + 0.45 * pulseScore (makeDecision None atlasOrionInputs)
         + 0.15 * max 0 (min 100 (50 + newsScore (makeDecision None atlasOrionInputs) / 2)))"
  by code_simp

text \<open>
  Claim C2, amended. For every decision of \<open>makeDecision\<close>, the composite score is
  \<open>round(0.40 core + 0.45 pulse + 0.15 normalizedNews)\<close>, where core and pulse are the two
  weighted averages before rounding (the decision's coreScore and pulseScore are these
  averages rounded to the nearest integer) and normalizedNews is \<open>50 + newsScore / 2\<close>
  clamped to [0, 100]; and it lies in [0, 100] whenever the module scores supplied are
  scores, that is in [0, 100], and the learned weights, if any are stored, are not negative.
\<close>

theorem compositeScore_formula:
  "compositeScore (makeDecision dynamicConfig inputs) =
     Math_round
       (0.40 * calculateWeightedScore (collectScores inputs)
                 (r_coreWeights (evaluate dynamicConfig (chironContext (collectScores inputs))))
        + 0.45 * calculateWeightedScore (collectScores inputs)
                 (r_pulseWeights (evaluate dynamicConfig (chironContext (collectScores inputs))))
        + 0.15 * max 0 (min 100 (50 + newsScore (makeDecision dynamicConfig inputs) / 2)))
   \<and> coreScore (makeDecision dynamicConfig inputs) =
       Math_round (calculateWeightedScore (collectScores inputs)
         (r_coreWeights (evaluate dynamicConfig (chironContext (collectScores inputs)))))
   \<and> pulseScore (makeDecision dynamicConfig inputs) =
       Math_round (calculateWeightedScore (collectScores inputs)
         (r_pulseWeights (evaluate dynamicConfig (chironContext (collectScores inputs)))))
   \<and> (scoresInRange inputs \<and> learnedNonneg dynamicConfig \<longrightarrow>
        0 \<le> compositeScore (makeDecision dynamicConfig inputs)
          \<and> compositeScore (makeDecision dynamicConfig inputs) \<le> 100)"
proof -
  have fields: "coreScore (makeDecision dynamicConfig inputs) =
       Math_round (calculateWeightedScore (collectScores inputs)
         (r_coreWeights (evaluate dynamicConfig (chironContext (collectScores inputs)))))
   \<and> pulseScore (makeDecision dynamicConfig inputs) =
       Math_round (calculateWeightedScore (collectScores inputs)
         (r_pulseWeights (evaluate dynamicConfig (chironContext (collectScores inputs)))))"
    by (simp add: makeDecision_def Let_def)
  show ?thesis
    using compositeScore_eq [of dynamicConfig inputs]
      compositeScore_range [of inputs dynamicConfig] fields
    by blast
qed

lemma exampleInputs_ok: "scoresInRange exampleInputs \<and> learnedNonneg None"
  by (simp add: scoresInRange_def inRange_def exampleInputs_def learnedNonneg_def)

lemma exampleInputs_composite: "compositeScore (makeDecision None exampleInputs) = 66"
  by code_simp

theorem compositeScore_formula_witness:
  "scoresInRange exampleInputs \<and> learnedNonneg None
     \<and> compositeScore (makeDecision None exampleInputs) = 66
     \<and> 0 \<le> compositeScore (makeDecision None exampleInputs)
     \<and> compositeScore (makeDecision None exampleInputs) \<le> 100"
  using compositeScore_formula [of None exampleInputs] exampleInputs_ok exampleInputs_composite
  by simp

section \<open>Confidence\<close>

lemma availableModules_collect: "availableModules (collectScores inputs) = reporting inputs"
  by (cases "newsSentiment inputs") (simp_all add: availableModules_def collectScores_def reporting_def)

text \<open>
  The claim C6 as it is written, over the signal modules, fails: the count that decides
  includes the news sentiment. With two modules reporting 90 and a sentiment of 0.5, which
  is the shape of input the trading agent sends, fewer than 3 modules report and the
  confidence is High.
\<close>

theorem two_modules_and_sentiment_not_low:
  "modulesReporting twoAndNewsInputs = 2
   \<and> modulesReporting twoAndNewsInputs < 3
   \<and> reporting twoAndNewsInputs = 3
   \<and> confidence (makeDecision None twoAndNewsInputs) = High
   \<and> confidence (makeDecision None twoAndNewsInputs) \<noteq> Low"
  by code_simp

text \<open>
  Claim C6, amended. For every decision input in which fewer than 3 of the seven score
  sources (the six modules and the news sentiment, which counts as one) report, the
  confidence of the decision is Low, whatever the scores that are present.
\<close>

theorem confidence_low_below_three_modules:
  "reporting inputs < 3 \<Longrightarrow>
     availableModules (moduleScores (makeDecision dynamicConfig inputs)) = reporting inputs
       \<and> confidence (makeDecision dynamicConfig inputs) = Low"
  by (simp add: makeDecision_def Let_def calculateConfidence_def availableModules_collect)

lemma reporting_two: "reporting twoStrongInputs = 2"
  by (simp add: reporting_def twoStrongInputs_def)

theorem confidence_low_below_three_modules_witness:
  "reporting twoStrongInputs < 3 \<and> confidence (makeDecision None twoStrongInputs) = Low"
  using confidence_low_below_three_modules [of twoStrongInputs None]
  by (simp add: reporting_def twoStrongInputs_def)

section \<open>No module at all\<close>

lemma calculateWeightedScore_none:
  assumes "noScores inputs"
  shows "calculateWeightedScore (collectScores inputs) weights = 50"
  using assms
  by (simp add: noScores_def collectScores_def calculateWeightedScore_def contribute_def)

lemma Math_round_50: "Math_round 50 = 50"
  by (simp add: Math_round_def)

text \<open>
  Claim C10. If no score is present at all (atlas, orion, phoenix, aether, demeter, cronos
  and news all absent), the weighted average is the neutral 50 for the core and for the
  pulse weights, and \<open>makeDecision\<close> yields coreScore 50, pulseScore 50 and compositeScore 50.
\<close>

theorem no_scores_neutral_fifty:
  "noScores inputs \<Longrightarrow>
     calculateWeightedScore (collectScores inputs)
         (r_coreWeights (evaluate dynamicConfig (chironContext (collectScores inputs)))) = 50
     \<and> calculateWeightedScore (collectScores inputs)
         (r_pulseWeights (evaluate dynamicConfig (chironContext (collectScores inputs)))) = 50
     \<and> coreScore (makeDecision dynamicConfig inputs) = 50
     \<and> pulseScore (makeDecision dynamicConfig inputs) = 50
     \<and> compositeScore (makeDecision dynamicConfig inputs) = 50"
proof -
  assume h: "noScores inputs"
  have n: "ms_news (collectScores inputs) = None"
    using h by (simp add: noScores_def collectScores_def)
  show ?thesis
    by (simp add: makeDecision_def Let_def calculateWeightedScore_none [OF h] n
        normalizeNews_def Math_round_def)
qed

theorem no_scores_neutral_fifty_witness:
  "noScores emptyInputs
     \<and> coreScore (makeDecision None emptyInputs) = 50
     \<and> pulseScore (makeDecision None emptyInputs) = 50
     \<and> compositeScore (makeDecision None emptyInputs) = 50"
  using no_scores_neutral_fifty [of emptyInputs None]
  by (simp add: noScores_def emptyInputs_def)


section \<open>The news score\<close>

text \<open>
  The claim C9 as it is written fails: a supplied sentiment score of 1 gives the
  news score 100.
\<close>

theorem newsScore_not_supplied_score:
  "newsSentiment sentimentOne = Some \<lparr>ns_score = 1, ns_summary = ''positive''\<rparr>
     \<and> newsScore (makeDecision None sentimentOne) = 100
     \<and> newsScore (makeDecision None sentimentOne) \<noteq> 1"
  by (simp add: sentimentOne_def makeDecision_def Let_def collectScores_def Math_round_def)

text \<open>
  Claim C9, amended. The news score is the supplied sentiment score times 100, rounded,
  when a sentiment is provided (so a supplied score in [-1, 1] gives a news score in
  [-100, 100]) and 0 when it is absent; the composite blends the normalized news
  \<open>50 + newsScore / 2\<close> clamped to [0, 100], which is \<open>50 + newsScore / 2\<close> for a news
  score in [-100, 100]; without a sentiment the decision is made all the same, with news
  score 0 and normalized news 50.
\<close>

theorem newsScore_scaled:
  "newsScore (makeDecision dynamicConfig inputs) =
     (case newsSentiment inputs of
        Some s \<Rightarrow> Math_round (ns_score s * 100)
      | None \<Rightarrow> 0)
   \<and> (\<forall>s. newsSentiment inputs = Some s \<and> - 1 \<le> ns_score s \<and> ns_score s \<le> 1 \<longrightarrow>
         - 100 \<le> newsScore (makeDecision dynamicConfig inputs)
           \<and> newsScore (makeDecision dynamicConfig inputs) \<le> 100)
   \<and> (- 100 \<le> newsScore (makeDecision dynamicConfig inputs)
        \<and> newsScore (makeDecision dynamicConfig inputs) \<le> 100 \<longrightarrow>
      normalizeNews (newsScore (makeDecision dynamicConfig inputs))
        = 50 + newsScore (makeDecision dynamicConfig inputs) / 2)
   \<and> compositeScore (makeDecision dynamicConfig inputs) =
       Math_round
         (calculateWeightedScore (collectScores inputs)
            (r_coreWeights (evaluate dynamicConfig (chironContext (collectScores inputs)))) * 0.4
          + calculateWeightedScore (collectScores inputs)
            (r_pulseWeights (evaluate dynamicConfig (chironContext (collectScores inputs)))) * 0.45
          + normalizeNews (newsScore (makeDecision dynamicConfig inputs)) * 0.15)
   \<and> (newsSentiment inputs = None \<longrightarrow>
        newsScore (makeDecision dynamicConfig inputs) = 0
          \<and> normalizeNews (newsScore (makeDecision dynamicConfig inputs)) = 50)"
proof -
  have bound: "- 100 \<le> Math_round (x * 100) \<and> Math_round (x * 100) \<le> 100"
    if "- 1 \<le> x" "x \<le> 1" for x :: real
  proof -
    have lo: "(- 100::int) \<le> \<lfloor>x * 100 + 1 / 2\<rfloor>" using that(1) by (simp add: le_floor_iff)
    have "\<lfloor>x * 100 + 1 / 2\<rfloor> < (101::int)" using that(2) by (simp add: floor_less_iff)
    then have hi: "\<lfloor>x * 100 + 1 / 2\<rfloor> \<le> (100::int)" by simp
    have "real_of_int (- 100) \<le> real_of_int \<lfloor>x * 100 + 1 / 2\<rfloor>"
      using lo by (simp only: of_int_le_iff)
    moreover have "real_of_int \<lfloor>x * 100 + 1 / 2\<rfloor> \<le> real_of_int 100"
      using hi by (simp only: of_int_le_iff)
    ultimately show ?thesis unfolding Math_round_def by simp
  qed
  show ?thesis
    by (cases "newsSentiment inputs")
       (auto simp add: makeDecision_def Let_def collectScores_def normalizeNews_def bound)
qed



theorem newsScore_scaled_witness:
  "newsSentiment sentimentOne = Some \<lparr>ns_score = 1, ns_summary = ''positive''\<rparr>
     \<and> newsScore (makeDecision None sentimentOne) = 100
     \<and> normalizeNews (newsScore (makeDecision None sentimentOne)) = 100
     \<and> newsSentiment emptyInputs = None
     \<and> newsScore (makeDecision None emptyInputs) = 0
     \<and> normalizeNews (newsScore (makeDecision None emptyInputs)) = 50"
proof -
  note one = newsScore_scaled [of None sentimentOne]
  note absent = newsScore_scaled [of None emptyInputs]
  have s: "newsSentiment sentimentOne = Some \<lparr>ns_score = 1, ns_summary = ''positive''\<rparr>"
    by (simp add: sentimentOne_def)
  have e: "newsSentiment emptyInputs = None"
    by (simp add: emptyInputs_def)
  from one have "newsScore (makeDecision None sentimentOne) =
      (case newsSentiment sentimentOne of Some s \<Rightarrow> Math_round (ns_score s * 100) | None \<Rightarrow> 0)"
    by (rule conjunct1)
  then have n: "newsScore (makeDecision None sentimentOne) = 100"
    by (simp add: s Math_round_def)
  from one have "- 100 \<le> newsScore (makeDecision None sentimentOne)
        \<and> newsScore (makeDecision None sentimentOne) \<le> 100 \<longrightarrow>
      normalizeNews (newsScore (makeDecision None sentimentOne))
        = 50 + newsScore (makeDecision None sentimentOne) / 2"
    by blast
  then have m: "normalizeNews (newsScore (makeDecision None sentimentOne)) = 100"
    by (simp add: n)
  from absent have "newsSentiment emptyInputs = None \<longrightarrow>
        newsScore (makeDecision None emptyInputs) = 0
          \<and> normalizeNews (newsScore (makeDecision None emptyInputs)) = 50"
    by blast
  with e have z: "newsScore (makeDecision None emptyInputs) = 0
          \<and> normalizeNews (newsScore (makeDecision None emptyInputs)) = 50"
    by blast
  show ?thesis using s n m e z by blast
qed

section \<open>The ledger: single operations\<close>

lemma floor_shares:
  fixes inv p :: real
  assumes "100 \<le> inv" and "p \<noteq> 0" and "1 \<le> Math_floor (inv / p)"
  shows "0 < p \<and> Math_floor (inv / p) * p \<le> inv"
proof -
  have pos: "0 < p"
  proof (rule ccontr)
    assume "\<not> 0 < p"
    with assms(2) have "p < 0" by simp
    with assms(1) have "inv / p \<le> 0" by (simp add: divide_nonneg_neg divide_le_0_iff)
    then have "\<lfloor>inv / p\<rfloor> \<le> 0" by (simp add: floor_le_iff)
    then have "Math_floor (inv / p) \<le> 0" by (simp add: Math_floor_def)
    with assms(3) show False by simp
  qed
  have "Math_floor (inv / p) \<le> inv / p" by (simp add: Math_floor_def)
  then have "Math_floor (inv / p) * p \<le> inv" using pos by (simp add: pos_le_divide_eq)
  with pos show ?thesis by simp
qed

lemma buy_null:
  assumes "buy L symbol price reason score = Some (L', None)"
  shows "L' = L"
  using assms unfolding buy_def Let_def
  by (auto split: if_splits option.splits)

lemma buy_low_investment:
  "sizedInvestment L symbol price < 100 \<Longrightarrow> buy L symbol price reason score = Some (L, None)"
  by (simp add: buy_def sizedInvestment_def Let_def)

lemma buy_no_whole_share:
  "\<not> sizedInvestment L symbol price < 100 \<Longrightarrow> price \<noteq> 0
     \<Longrightarrow> Math_floor (sizedInvestment L symbol price / price) < 1
     \<Longrightarrow> buy L symbol price reason score = Some (L, None)"
  by (simp add: buy_def sizedInvestment_def Let_def)

lemma buy_executed:
  assumes "buy L symbol price reason score = Some (L', Some t)"
  shows "\<not> sizedInvestment L symbol price < 100 \<and> price \<noteq> 0
     \<and> t = \<lparr>t_symbol = symbol, t_action = BUY,
             t_shares = Math_floor (sizedInvestment L symbol price / price),
             t_price = price,
             t_total = Math_floor (sizedInvestment L symbol price / price) * price,
             t_reason = reason, t_argusScore = score\<rparr>
     \<and> 1 \<le> t_shares t
     \<and> cash L' = cash L - t_total t
     \<and> trades L' = t # trades L
     \<and> startingCapital L' = startingCapital L
     \<and> positions L' = AList.update symbol
          (case map_of (positions L) symbol of
             Some existing \<Rightarrow>
               \<lparr>shares = shares existing + t_shares t,
                avgCost = (shares existing * avgCost existing + t_total t)
                            / (shares existing + t_shares t)\<rparr>
           | None \<Rightarrow> \<lparr>shares = t_shares t, avgCost = price\<rparr>)
          (positions L)
     \<and> (case map_of (positions L) symbol of
           Some existing \<Rightarrow> shares existing + t_shares t \<noteq> 0 | None \<Rightarrow> True)"
  using assms unfolding buy_def Let_def sizedInvestment_def
  by (auto split: if_splits option.splits)

lemma buy_affordable:
  assumes "buy L symbol price reason score = Some (L', Some t)"
  shows "0 < price \<and> 0 < t_total t \<and> t_total t \<le> cash L * 0.9 \<and> t_total t \<le> cash L"
proof -
  note e = buy_executed [OF assms]
  define inv where "inv = sizedInvestment L symbol price"
  have i: "100 \<le> inv" using e by (simp add: inv_def)
  have p: "price \<noteq> 0" using e by simp
  have sh: "t_shares t = Math_floor (inv / price)" using e by (simp add: inv_def)
  have tot: "t_total t = Math_floor (inv / price) * price" using e by (simp add: inv_def)
  have n: "1 \<le> Math_floor (inv / price)" using e sh by simp
  from floor_shares [OF i p n] have pos: "0 < price" and le: "Math_floor (inv / price) * price \<le> inv"
    by simp_all
  have "inv \<le> cash L * 0.9" by (simp add: inv_def sizedInvestment_def)
  with le tot have a: "t_total t \<le> cash L * 0.9" by simp
  have "100 \<le> cash L * 0.9" using i \<open>inv \<le> cash L * 0.9\<close> by simp
  then have "cash L * 0.9 \<le> cash L" by simp
  with a have b: "t_total t \<le> cash L" by simp
  have "0 < Math_floor (inv / price) * price" using n pos by (simp add: mult_pos_pos)
  with tot have "0 < t_total t" by simp
  with pos a b show ?thesis by simp
qed

lemma sell_null:
  assumes "sell L symbol price reason score sellAll = (L', None)"
  shows "L' = L"
  using assms unfolding sell_def Let_def
  by (auto split: if_splits option.splits)

lemma sell_no_position:
  "map_of (positions L) symbol = None \<Longrightarrow> sell L symbol price reason score sellAll = (L, None)"
  by (simp add: sell_def)

lemma sell_empty_position:
  "map_of (positions L) symbol = Some pos \<Longrightarrow> shares pos \<le> 0
     \<Longrightarrow> sell L symbol price reason score sellAll = (L, None)"
  by (simp add: sell_def)

lemma Math_ceil_half_pos: "0 < s \<Longrightarrow> 1 \<le> Math_ceil (s / 2)"
proof -
  assume "0 < s"
  then have "0 < s / 2" by simp
  then have "0 < \<lceil>s / 2\<rceil>" by (simp add: less_ceiling_iff)
  then have "1 \<le> \<lceil>s / 2\<rceil>" by simp
  then have "real_of_int 1 \<le> real_of_int \<lceil>s / 2\<rceil>" by (simp only: of_int_le_iff)
  then show ?thesis by (simp add: Math_ceil_def)
qed

lemma sell_executed:
  assumes "sell L symbol price reason score sellAll = (L', Some t)"
  shows "\<exists>pos. map_of (positions L) symbol = Some pos \<and> 0 < shares pos
     \<and> t_action t = SELL \<and> t_price t = price \<and> t_symbol t = symbol
     \<and> t_shares t = (if sellAll then shares pos else Math_ceil (shares pos / 2))
     \<and> 0 < t_shares t
     \<and> t_total t = t_shares t * price
     \<and> cash L' = cash L + t_total t
     \<and> trades L' = t # trades L
     \<and> startingCapital L' = startingCapital L
     \<and> positions L' =
          (if sellAll then AList.delete symbol (positions L)
           else AList.update symbol
                  \<lparr>shares = shares pos - t_shares t, avgCost = avgCost pos\<rparr> (positions L))"
proof (cases "map_of (positions L) symbol")
  case None
  then show ?thesis using assms by (simp add: sell_def)
next
  case (Some pos)
  show ?thesis
  proof (cases "shares pos \<le> 0")
    case True
    then show ?thesis using assms Some by (simp add: sell_def)
  next
    case False
    then have pos: "0 < shares pos" by simp
    have c: "0 < Math_ceil (shares pos / 2)" using Math_ceil_half_pos [OF pos] by simp
    show ?thesis using assms Some False pos c
      by (auto simp add: sell_def Let_def)
  qed
qed

lemma debited_Cons:
  "debited (t # ts) = (if t_action t = BUY then t_total t else 0) + debited ts"
  by (simp add: debited_def)

lemma credited_Cons:
  "credited (t # ts) = (if t_action t = SELL then t_total t else 0) + credited ts"
  by (simp add: credited_def)

lemma buy_balanced:
  assumes "buy L symbol price reason score = Some (L', r)" and "balanced L"
  shows "balanced L'"
proof (cases r)
  case None
  with assms buy_null show ?thesis by metis
next
  case (Some t)
  with assms(1) have b: "buy L symbol price reason score = Some (L', Some t)" by simp
  note e = buy_executed [OF b]
  have a: "t_action t = BUY" using e by simp
  show ?thesis using assms(2) e a
    by (simp add: balanced_def debited_Cons credited_Cons)
qed

lemma sell_balanced:
  assumes "sell L symbol price reason score sellAll = (L', r)" and "balanced L"
  shows "balanced L'"
proof (cases r)
  case None
  with assms sell_null show ?thesis by metis
next
  case (Some t)
  with assms(1) have b: "sell L symbol price reason score sellAll = (L', Some t)" by simp
  from sell_executed [OF b] obtain pos where e:
    "t_action t = SELL" "cash L' = cash L + t_total t" "trades L' = t # trades L"
    "startingCapital L' = startingCapital L" by blast
  show ?thesis using assms(2) e
    by (simp add: balanced_def debited_Cons credited_Cons)
qed

section \<open>The ledger: sequences of operations\<close>

lemma set_update_cases:
  "(k', v') \<in> set (AList.update k v al) \<Longrightarrow> (k', v') = (k, v) \<or> (k', v') \<in> set al"
  by (induction al) (auto split: if_splits)

lemma set_delete_subset: "(k', v') \<in> set (AList.delete k al) \<Longrightarrow> (k', v') \<in> set al"
  by (simp add: AList.delete_eq)

lemma wholeShares_lookup:
  "wholeShares L \<Longrightarrow> map_of (positions L) symbol = Some pos \<Longrightarrow> shares pos \<in> \<int> \<and> 0 \<le> shares pos"
  unfolding wholeShares_def by (auto dest: map_of_SomeD)

lemma wholeShares_update:
  assumes "wholeShares L" and "shares pos \<in> \<int>" and "0 \<le> shares pos"
    and "positions L' = AList.update symbol pos (positions L)"
  shows "wholeShares L'"
  using assms unfolding wholeShares_def
  by (auto dest: set_update_cases)

lemma wholeShares_delete:
  assumes "wholeShares L" and "positions L' = AList.delete symbol (positions L)"
  shows "wholeShares L'"
  using assms unfolding wholeShares_def
  by (auto dest: set_delete_subset)

lemma Math_floor_Ints: "Math_floor x \<in> \<int>"
  by (simp add: Math_floor_def)

lemma half_ceiling_whole:
  assumes "s \<in> \<int>" and "0 < s"
  shows "s - Math_ceil (s / 2) \<in> \<int> \<and> 0 \<le> s - Math_ceil (s / 2)"
proof -
  from assms(1) obtain k :: int where k: "s = of_int k" by (auto elim: Ints_cases)
  with assms(2) have kpos: "0 < k" by simp
  have "real_of_int k / 2 \<le> real_of_int k" using kpos by simp
  then have "\<lceil>real_of_int k / 2\<rceil> \<le> k" by (simp add: ceiling_le_iff)
  then have "real_of_int \<lceil>real_of_int k / 2\<rceil> \<le> real_of_int k" by (simp only: of_int_le_iff)
  then have le: "Math_ceil (s / 2) \<le> s" by (simp add: Math_ceil_def k)
  have "Math_ceil (s / 2) \<in> \<int>" by (simp add: Math_ceil_def)
  with assms(1) have "s - Math_ceil (s / 2) \<in> \<int>" by (rule Ints_diff)
  with le show ?thesis by simp
qed

lemma buy_defined:
  assumes "price \<noteq> 0" and "wholeShares L"
  shows "\<exists>L' r. buy L symbol price reason score = Some (L', r)"
proof (cases "map_of (positions L) symbol")
  case None
  then show ?thesis using assms(1) by (simp add: buy_def Let_def)
next
  case (Some existing)
  from wholeShares_lookup [OF assms(2) Some] have e: "0 \<le> shares existing" by simp
  have "shares existing + n \<noteq> 0" if "\<not> n < 1" for n :: real
    using that e by simp
  then show ?thesis using assms(1) Some by (simp add: buy_def Let_def)
qed

lemma buy_sound:
  assumes b: "buy L symbol price reason score = Some (L', r)" and s: "sound L"
  shows "sound L'"
proof (cases r)
  case None
  with b buy_null s show ?thesis by metis
next
  case (Some t)
  with b have bt: "buy L symbol price reason score = Some (L', Some t)" by simp
  note e = buy_executed [OF bt]
  note a = buy_affordable [OF bt]
  have bal: "balanced L'" using buy_balanced [OF b] s by (simp add: sound_def)
  have c: "0 \<le> cash L'" using e a by simp
  have ws: "wholeShares L" using s by (simp add: sound_def)
  have ts: "t_shares t \<in> \<int>" "0 \<le> t_shares t" using e Math_floor_Ints by auto
  have w: "wholeShares L'"
  proof (cases "map_of (positions L) symbol")
    case None
    with e have u: "positions L' = AList.update symbol \<lparr>shares = t_shares t, avgCost = price\<rparr> (positions L)"
      by simp
    show ?thesis using wholeShares_update [OF ws _ _ u] ts by simp
  next
    case (Some existing)
    from wholeShares_lookup [OF ws Some] have ex: "shares existing \<in> \<int>" "0 \<le> shares existing"
      by simp_all
    from Some e have u: "positions L' = AList.update symbol
        \<lparr>shares = shares existing + t_shares t,
         avgCost = (shares existing * avgCost existing + t_total t) / (shares existing + t_shares t)\<rparr>
        (positions L)" by simp
    show ?thesis using wholeShares_update [OF ws _ _ u] ts ex by simp
  qed
  show ?thesis using bal c w by (simp add: sound_def)
qed

lemma sell_sound:
  assumes b: "sell L symbol price reason score sellAll = (L', r)" and s: "sound L"
    and p: "0 \<le> price"
  shows "sound L'"
proof (cases r)
  case None
  with b sell_null s show ?thesis by metis
next
  case (Some t)
  with b have bt: "sell L symbol price reason score sellAll = (L', Some t)" by simp
  from sell_executed [OF bt] obtain pos where e:
    "map_of (positions L) symbol = Some pos" "0 < shares pos"
    "t_shares t = (if sellAll then shares pos else Math_ceil (shares pos / 2))"
    "0 < t_shares t" "t_total t = t_shares t * price" "cash L' = cash L + t_total t"
    "positions L' =
          (if sellAll then AList.delete symbol (positions L)
           else AList.update symbol
                  \<lparr>shares = shares pos - t_shares t, avgCost = avgCost pos\<rparr> (positions L))"
    by blast
  have bal: "balanced L'" using sell_balanced [OF b] s by (simp add: sound_def)
  have "0 \<le> t_total t" using e(4,5) p by simp
  then have c: "0 \<le> cash L'" using e(6) s by (simp add: sound_def)
  have ws: "wholeShares L" using s by (simp add: sound_def)
  have w: "wholeShares L'"
  proof (cases sellAll)
    case True
    with e(7) have "positions L' = AList.delete symbol (positions L)" by simp
    then show ?thesis by (rule wholeShares_delete [OF ws])
  next
    case False
    from wholeShares_lookup [OF ws e(1)] have "shares pos \<in> \<int>" by simp
    from half_ceiling_whole [OF this e(2)] False e(3)
    have h: "shares pos - t_shares t \<in> \<int>" "0 \<le> shares pos - t_shares t" by simp_all
    from False e(7) have u: "positions L' = AList.update symbol
        \<lparr>shares = shares pos - t_shares t, avgCost = avgCost pos\<rparr> (positions L)" by simp
    show ?thesis using wholeShares_update [OF ws _ _ u] h by simp
  qed
  show ?thesis using bal c w by (simp add: sound_def)
qed

lemma applyOp_sound:
  assumes "0 < opPrice x" and "sound L"
  shows "\<exists>L'. applyOp L x = Some L' \<and> sound L'"
proof (cases x)
  case (OpBuy symbol price reason score)
  with assms(1) have p: "price \<noteq> 0" by simp
  have ws: "wholeShares L" using assms(2) by (simp add: sound_def)
  from buy_defined [OF p ws] obtain L' r where b: "buy L symbol price reason score = Some (L', r)"
    by blast
  from buy_sound [OF b assms(2)] b OpBuy show ?thesis by simp
next
  case (OpSell symbol price reason score sellAll)
  with assms(1) have p: "0 \<le> price" by simp
  obtain L' r where b: "sell L symbol price reason score sellAll = (L', r)" by (cases "sell L symbol price reason score sellAll")
  from sell_sound [OF b assms(2) p] b OpSell show ?thesis by simp
qed

lemma run_sound:
  assumes "\<forall>x \<in> set ops. 0 < opPrice x" and "sound L"
  shows "\<exists>L'. run L ops = Some L' \<and> sound L'"
  using assms
proof (induction ops arbitrary: L)
  case Nil
  then show ?case by simp
next
  case (Cons x xs)
  from Cons.prems have "0 < opPrice x" by simp
  from applyOp_sound [OF this Cons.prems(2)] obtain L1 where s: "applyOp L x = Some L1" "sound L1"
    by blast
  from Cons.prems have "\<forall>x \<in> set xs. 0 < opPrice x" by simp
  from Cons.IH [OF this s(2)] s(1) show ?case by simp
qed

lemma sound_newLedger: "sound (newLedger :: 'r Ledger)"
  by (simp add: sound_def balanced_def wholeShares_def newLedger_def debited_def credited_def
      INITIAL_CAPITAL_def)

lemma paper_ledger_cash:
  assumes "\<forall>x \<in> set ops. 0 < opPrice x"
  shows "\<exists>L. run (newLedger :: 'r Ledger) (take n ops) = Some L
           \<and> cash L = startingCapital L - debited (trades L) + credited (trades L)
           \<and> 0 \<le> cash L"
proof -
  have "\<forall>x \<in> set (take n ops). 0 < opPrice x" using assms by (auto dest: in_set_takeD)
  from run_sound [OF this sound_newLedger] show ?thesis
    by (auto simp add: sound_def balanced_def)
qed

section \<open>The trader pool: one symbol\<close>

lemma tradeSymbol_held:
  assumes "map_of (ai_positions t) s = Some pos" and "p_avgCost pos \<noteq> 0"
  shows "tradeSymbol cfg t s price d =
     Some (if pnlPercentOf pos price \<le> - (stopLoss cfg * 100)
             then executeSell (repriced t s pos price) s price (StopLossMsg s (pnlPercentOf pos price))
           else if pnlPercentOf pos price \<ge> takeProfit cfg * 100
             then executeSell (repriced t s pos price) s price (TakeProfitMsg s (pnlPercentOf pos price))
           else if compositeScore d < sellScore cfg
             then executeSell (repriced t s pos price) s price (SellMsg s (compositeScore d))
           else repriced t s pos price)"
  using assms by (simp add: tradeSymbol_def Let_def repriced_def pnlPercentOf_def)

lemma tradeSymbol_free:
  assumes "map_of (ai_positions t) s = None"
  shows "tradeSymbol cfg t s price d =
     (if compositeScore d \<ge> buyScore cfg \<and> length (ai_positions t) < maxPositions cfg
          \<and> currentCash t * positionSize cfg \<ge> 10
          \<and> currentCash t \<ge> currentCash t * positionSize cfg
        then executeBuy t s price (currentCash t * positionSize cfg) (BuyMsg s (compositeScore d))
      else Some t)"
  using assms by (simp add: tradeSymbol_def Let_def)

lemma repriced_lookup:
  "map_of (ai_positions (repriced t s pos price)) s =
     Some (pos\<lparr>p_currentPrice := price,
               p_pnl := (price - p_avgCost pos) * p_shares pos,
               p_pnlPercent := pnlPercentOf pos price\<rparr>)"
  by (simp add: repriced_def update_conv')

lemma repriced_fields:
  "ai_trades (repriced t s pos price) = ai_trades t"
  "currentCash (repriced t s pos price) = currentCash t"
  "initialCapital (repriced t s pos price) = initialCapital t"
  "tradeCount (repriced t s pos price) = tradeCount t"
  by (simp_all add: repriced_def)


lemma executeSell_repriced:
  "executeSell (repriced t s pos price) s price reason =
     t\<lparr>currentCash := currentCash t + p_shares pos * price,
       ai_positions := AList.delete s (AList.update s
          (pos\<lparr>p_currentPrice := price,
                p_pnl := (price - p_avgCost pos) * p_shares pos,
                p_pnlPercent := pnlPercentOf pos price\<rparr>) (ai_positions t)),
       ai_trades := sellTrade s pos price reason # ai_trades t,
       tradeCount := tradeCount t + 1\<rparr>"
  by (simp add: executeSell_def repriced_lookup Let_def sellTrade_def) (simp add: repriced_def)

lemma executeBuy_result:
  assumes "price \<noteq> 0"
  shows "executeBuy t s price amount reason =
     Some (t\<lparr>currentCash := currentCash t - amount,
             ai_positions := AList.update s
               \<lparr>p_symbol = s, p_shares = amount / price, p_avgCost = price,
                p_currentPrice = price, p_pnl = 0, p_pnlPercent = 0\<rparr> (ai_positions t),
             ai_trades := \<lparr>a_symbol = s, a_action = BUY, a_price = price,
                           a_shares = amount / price, a_amount = amount, a_reason = reason,
                           a_pnl = None\<rparr> # ai_trades t,
             tradeCount := tradeCount t + 1\<rparr>)"
  using assms by (simp add: executeBuy_def Let_def)

lemma tradeSymbol_trades:
  assumes "tradeSymbol cfg t s price d = Some t'"
  shows "ai_trades t' = stepTrades cfg t s price d @ ai_trades t"
proof (cases "map_of (ai_positions t) s")
  case None
  show ?thesis
  proof (cases "price = 0")
    case True
    then show ?thesis using assms None
      by (auto simp add: tradeSymbol_free stepTrades_def executeBuy_def split: if_splits)
  next
    case False
    then show ?thesis using assms None
      by (auto simp add: tradeSymbol_free stepTrades_def executeBuy_result split: if_splits)
  qed
next
  case (Some pos)
  show ?thesis
  proof (cases "p_avgCost pos = 0")
    case True
    then show ?thesis using assms Some by (simp add: tradeSymbol_def)
  next
    case False
    from assms show ?thesis
      unfolding tradeSymbol_held [OF Some False]
      by (auto simp add: stepTrades_def Some executeSell_repriced repriced_fields split: if_splits)
  qed
qed


lemma stepTrades_shape:
  "stepTrades cfg t s price d = []
     \<or> (\<exists>tr. stepTrades cfg t s price d = [tr] \<and> a_symbol tr = s
           \<and> (a_action tr = BUY \<longrightarrow> map_of (ai_positions t) s = None)
           \<and> (a_action tr = SELL \<longrightarrow> map_of (ai_positions t) s \<noteq> None))"
  by (cases "map_of (ai_positions t) s") (simp_all add: stepTrades_def sellTrade_def)

section \<open>The trader pool: ticks\<close>

lemma posOK_update:
  "posOK ps \<Longrightarrow> 0 \<le> p_shares pos \<Longrightarrow> p_avgCost pos \<noteq> 0 \<Longrightarrow> posOK (AList.update s pos ps)"
  unfolding posOK_def by (auto dest: set_update_cases)

lemma posOK_delete: "posOK ps \<Longrightarrow> posOK (AList.delete s ps)"
  unfolding posOK_def by (auto dest: set_delete_subset)

lemma posOK_lookup: "posOK ps \<Longrightarrow> map_of ps s = Some pos \<Longrightarrow> 0 \<le> p_shares pos \<and> p_avgCost pos \<noteq> 0"
  unfolding posOK_def by (auto dest: map_of_SomeD)

lemma ai_sound_alt:
  "ai_sound t \<longleftrightarrow> ai_balanced t \<and> 0 \<le> currentCash t \<and> posOK (ai_positions t)"
  by (simp add: ai_sound_def posOK_def)

lemma ai_debited_Cons:
  "ai_debited (tr # ts) = (if a_action tr = BUY then a_amount tr else 0) + ai_debited ts"
  by (simp add: ai_debited_def)

lemma ai_credited_Cons:
  "ai_credited (tr # ts) = (if a_action tr = SELL then a_amount tr else 0) + ai_credited ts"
  by (simp add: ai_credited_def)

lemma executeSell_repriced_sound:
  assumes snd: "ai_sound t" and look: "map_of (ai_positions t) s = Some pos" and p: "0 \<le> price"
  shows "ai_sound (executeSell (repriced t s pos price) s price reason)"
proof -
  from snd have ok: "posOK (ai_positions t)" by (simp add: ai_sound_alt)
  from posOK_lookup [OF ok look] have sh: "0 \<le> p_shares pos" and av: "p_avgCost pos \<noteq> 0"
    by simp_all
  have amount: "0 \<le> p_shares pos * price" using sh p by simp
  have ok': "posOK (AList.delete s (AList.update s
          (pos\<lparr>p_currentPrice := price,
                p_pnl := (price - p_avgCost pos) * p_shares pos,
                p_pnlPercent := pnlPercentOf pos price\<rparr>) (ai_positions t)))"
    by (rule posOK_delete, rule posOK_update [OF ok]) (use sh av in simp_all)
  show ?thesis
    unfolding executeSell_repriced ai_sound_alt
    using snd amount ok'
    by (simp add: ai_sound_alt ai_balanced_def ai_debited_Cons ai_credited_Cons sellTrade_def)
qed

lemma repriced_sound:
  assumes snd: "ai_sound t" and look: "map_of (ai_positions t) s = Some pos"
  shows "ai_sound (repriced t s pos price)"
proof -
  from snd have ok: "posOK (ai_positions t)" by (simp add: ai_sound_alt)
  from posOK_lookup [OF ok look] have sh: "0 \<le> p_shares pos" and av: "p_avgCost pos \<noteq> 0"
    by simp_all
  have "posOK (ai_positions (repriced t s pos price))"
    unfolding repriced_def using posOK_update [OF ok, of "pos\<lparr>p_currentPrice := price,
                p_pnl := (price - p_avgCost pos) * p_shares pos,
                p_pnlPercent := pnlPercentOf pos price\<rparr>" s] sh av
    by simp
  then show ?thesis using snd
    by (simp add: ai_sound_alt ai_balanced_def repriced_fields)
qed

lemma executeBuy_sound:
  assumes snd: "ai_sound t" and p: "0 < price" and a: "10 \<le> amount" "amount \<le> currentCash t"
  shows "\<exists>t'. executeBuy t s price amount reason = Some t' \<and> ai_sound t'"
proof -
  from snd have ok: "posOK (ai_positions t)" by (simp add: ai_sound_alt)
  have pn: "price \<noteq> 0" using p by simp
  have sh: "0 \<le> amount / price" using a(1) p by simp
  have ok': "posOK (AList.update s
               \<lparr>p_symbol = s, p_shares = amount / price, p_avgCost = price,
                p_currentPrice = price, p_pnl = 0, p_pnlPercent = 0\<rparr> (ai_positions t))"
    by (rule posOK_update [OF ok]) (use sh pn in simp_all)
  show ?thesis
    unfolding executeBuy_result [OF pn] ai_sound_alt
    using snd a ok'
    by (simp add: ai_sound_alt ai_balanced_def ai_debited_Cons ai_credited_Cons)
qed

lemma tradeSymbol_sound:
  assumes p: "0 < price" and snd: "ai_sound t"
  shows "\<exists>t'. tradeSymbol cfg t s price d = Some t' \<and> ai_sound t'"
proof (cases "map_of (ai_positions t) s")
  case None
  define entry where "entry \<longleftrightarrow>
      compositeScore d \<ge> buyScore cfg \<and> length (ai_positions t) < maxPositions cfg
        \<and> currentCash t * positionSize cfg \<ge> 10
        \<and> currentCash t \<ge> currentCash t * positionSize cfg"
  have eq: "tradeSymbol cfg t s price d =
      (if entry
         then executeBuy t s price (currentCash t * positionSize cfg) (BuyMsg s (compositeScore d))
       else Some t)"
    unfolding entry_def by (rule tradeSymbol_free [OF None])
  show ?thesis
  proof (cases entry)
    case True
    then have a: "10 \<le> currentCash t * positionSize cfg"
      "currentCash t * positionSize cfg \<le> currentCash t" by (simp_all add: entry_def)
    from executeBuy_sound [OF snd p a] True show ?thesis by (simp add: eq)
  next
    case False
    then show ?thesis using snd by (simp add: eq)
  qed
next
  case (Some pos)
  from snd have ok: "posOK (ai_positions t)" by (simp add: ai_sound_alt)
  from posOK_lookup [OF ok Some] have av: "p_avgCost pos \<noteq> 0" by simp
  have p0: "0 \<le> price" using p by simp
  show ?thesis
    unfolding tradeSymbol_held [OF Some av]
    using executeSell_repriced_sound [OF snd Some p0] repriced_sound [OF snd Some]
    by simp
qed

lemma tradeSymbols_sound:
  assumes "positivePrices fetch" and "ai_sound t"
  shows "\<exists>t'. tradeSymbols cfg fetch syms t = Some t' \<and> ai_sound t'"
  using assms
proof (induction syms arbitrary: t)
  case Nil
  then show ?case by simp
next
  case (Cons s rest)
  show ?case
  proof (cases "fetch s")
    case None
    with Cons.IH [OF Cons.prems] show ?thesis by simp
  next
    case (Some q)
    obtain price d where q: "q = (price, d)" by (cases q)
    with Some Cons.prems(1) have "0 < price" by (auto simp add: positivePrices_def)
    from tradeSymbol_sound [OF this Cons.prems(2)] obtain t1
      where t1: "tradeSymbol cfg t s price d = Some t1" "ai_sound t1" by blast
    from Cons.IH [OF Cons.prems(1) t1(2)] Some q t1(1) show ?thesis by simp
  qed
qed

lemma runTicks_sound:
  assumes "\<forall>fetch \<in> set fetches. positivePrices fetch" and "ai_sound t"
  shows "\<exists>t'. runTicks personality fetches t = Some t' \<and> ai_sound t'"
  using assms
proof (induction fetches arbitrary: t)
  case Nil
  then show ?case by simp
next
  case (Cons fetch later)
  from Cons.prems have "positivePrices fetch" by simp
  from tradeSymbols_sound [OF this Cons.prems(2)] obtain t1
    where t1: "analyzeAndTrade fetch personality t = Some t1" "ai_sound t1"
    unfolding analyzeAndTrade_def by blast
  from Cons.prems have "\<forall>fetch \<in> set later. positivePrices fetch" by simp
  from Cons.IH [OF this t1(2)] t1(1) show ?case by simp
qed

lemma ai_sound_initial: "ai_sound (initializeTrader personality)"
  by (simp add: ai_sound_def ai_balanced_def initializeTrader_def ai_debited_def ai_credited_def)

lemma pool_cash:
  assumes "\<forall>fetch \<in> set fetches. positivePrices fetch"
  shows "\<exists>t. runTicks personality (take n fetches) (initializeTrader personality) = Some t
           \<and> currentCash t = initialCapital t - ai_debited (ai_trades t) + ai_credited (ai_trades t)
           \<and> 0 \<le> currentCash t"
proof -
  have "\<forall>fetch \<in> set (take n fetches). positivePrices fetch" using assms by (auto dest: in_set_takeD)
  from runTicks_sound [OF this ai_sound_initial [of personality], of personality]
  obtain t where "runTicks personality (take n fetches) (initializeTrader personality) = Some t"
    and "ai_sound t" by blast
  then show ?thesis by (auto simp add: ai_sound_def ai_balanced_def)
qed



lemma held_symbol_never_bought:
  assumes "tradeSymbol cfg t s price d = Some t'" and "map_of (ai_positions t) s = Some pos"
  shows "ai_trades t' = ai_trades t
           \<or> (\<exists>tr. ai_trades t' = tr # ai_trades t \<and> a_action tr = SELL)"
proof -
  have step: "ai_trades t' = stepTrades cfg t s price d @ ai_trades t"
    by (rule tradeSymbol_trades [OF assms(1)])
  from stepTrades_shape [of cfg t s price d] show ?thesis
  proof
    assume "stepTrades cfg t s price d = []"
    with step show ?thesis by simp
  next
    assume "\<exists>tr. stepTrades cfg t s price d = [tr] \<and> a_symbol tr = s
           \<and> (a_action tr = BUY \<longrightarrow> map_of (ai_positions t) s = None)
           \<and> (a_action tr = SELL \<longrightarrow> map_of (ai_positions t) s \<noteq> None)"
    then obtain tr where tr: "stepTrades cfg t s price d = [tr]"
      "a_action tr = BUY \<longrightarrow> map_of (ai_positions t) s = None" by blast
    from tr(2) assms(2) have "a_action tr \<noteq> BUY" by auto
    then have "a_action tr = SELL" by (cases "a_action tr") simp_all
    with step tr(1) show ?thesis by simp
  qed
qed

section \<open>Sample runs\<close>

lemma strong_quote_composite: "compositeScore (makeDecision None (poolInputs ''NVDA'' 62)) = 60"
  by code_simp

lemma first_tick_buys: "analyzeAndTrade (quoteFor ''NVDA'' 100 62) P_aggressive (initializeTrader P_aggressive)
   = Some heldTrader"
  by code_simp


lemma held_step:
  "tradeSymbol (THRESHOLDS P_aggressive) heldTrader ''NVDA'' 90 weakDecision = Some soldTrader"
  by code_simp

section \<open>Invalid operations\<close>

text \<open>
  Claim C8. An invalid ledger operation is a no-op: \<open>buy\<close> returns \<open>null\<close> and leaves the
  ledger (cash, positions, trade history) as it was when the sized investment is below the
  minimum of 100 or, at a price other than 0, buys less than one whole share; \<open>sell\<close>
  returns \<open>null\<close> and leaves the ledger as it was when the symbol has no position. Neither
  has a throwing path: \<open>sell\<close> always returns, and \<open>buy\<close> returns at every price other
  than 0 on a ledger of whole share counts.
\<close>

theorem invalid_operation_is_noop:
  "(sizedInvestment L symbol price < 100 \<longrightarrow>
      buy L symbol price reason score = Some (L, None))
   \<and> (\<not> sizedInvestment L symbol price < 100 \<and> price \<noteq> 0
        \<and> Math_floor (sizedInvestment L symbol price / price) < 1 \<longrightarrow>
      buy L symbol price reason score = Some (L, None))
   \<and> (getPosition L symbol = None \<longrightarrow>
      sell L symbol price reason score sellAll = (L, None))
   \<and> (price \<noteq> 0 \<and> wholeShares L \<longrightarrow>
      (\<exists>L' r. buy L symbol price reason score = Some (L', r)))"
  using buy_low_investment [of L symbol price reason score]
    buy_no_whole_share [of L symbol price reason score]
    sell_no_position [of L symbol price reason score sellAll]
    buy_defined [of price L symbol reason score]
  by (simp add: getPosition_def)

lemma small_investment: "sizedInvestment (smallLedger :: string Ledger) ''AAPL'' 150 = 20"
  by code_simp

lemma fresh_investment: "sizedInvestment (newLedger :: string Ledger) ''BRK'' 30000 = 20000"
  by code_simp

theorem invalid_operation_is_noop_witness:
  "sizedInvestment (smallLedger :: string Ledger) ''AAPL'' 150 < 100
   \<and> buy (smallLedger :: string Ledger) ''AAPL'' 150 ''entry'' 70 = Some (smallLedger, None)
   \<and> \<not> sizedInvestment (newLedger :: string Ledger) ''BRK'' 30000 < 100
   \<and> Math_floor (sizedInvestment (newLedger :: string Ledger) ''BRK'' 30000 / 30000) < 1
   \<and> buy (newLedger :: string Ledger) ''BRK'' 30000 ''entry'' 70 = Some (newLedger, None)
   \<and> getPosition (newLedger :: string Ledger) ''AAPL'' = None
   \<and> sell (newLedger :: string Ledger) ''AAPL'' 150 ''exit'' 30 True = (newLedger, None)
   \<and> (\<exists>L' r. buy (newLedger :: string Ledger) ''BRK'' 30000 ''entry'' 70 = Some (L', r))"
proof -
  have a: "sizedInvestment (smallLedger :: string Ledger) ''AAPL'' 150 < 100"
    by (simp add: small_investment)
  have b: "\<not> sizedInvestment (newLedger :: string Ledger) ''BRK'' 30000 < 100"
    by (simp add: fresh_investment)
  have c: "Math_floor (sizedInvestment (newLedger :: string Ledger) ''BRK'' 30000 / 30000) < 1"
    by (simp add: fresh_investment Math_floor_def)
  have d: "getPosition (newLedger :: string Ledger) ''AAPL'' = None"
    by (simp add: getPosition_def newLedger_def)
  have n: "(30000::real) \<noteq> 0" by simp
  from invalid_operation_is_noop [of smallLedger "''AAPL''" 150 "''entry''" 70] a
  have 1: "buy (smallLedger :: string Ledger) ''AAPL'' 150 ''entry'' 70 = Some (smallLedger, None)"
    by blast
  from invalid_operation_is_noop [of newLedger "''BRK''" 30000 "''entry''" 70] b c n
  have 2: "buy (newLedger :: string Ledger) ''BRK'' 30000 ''entry'' 70 = Some (newLedger, None)"
    by blast
  from invalid_operation_is_noop [of newLedger "''AAPL''" 150 "''exit''" 30 True] d
  have 3: "sell (newLedger :: string Ledger) ''AAPL'' 150 ''exit'' 30 True = (newLedger, None)"
    by blast
  have w: "wholeShares (newLedger :: string Ledger)"
    by (simp add: wholeShares_def newLedger_def)
  from invalid_operation_is_noop [of newLedger "''BRK''" 30000 "''entry''" 70] n w
  have 4: "\<exists>L' r. buy (newLedger :: string Ledger) ''BRK'' 30000 ''entry'' 70 = Some (L', r)"
    by blast
  from a b c d 1 2 3 4 show ?thesis by blast
qed

section \<open>Average cost\<close>

lemma weighted_mean_between:
  fixes a b w1 w2 :: real
  assumes "0 < w1" and "0 < w2" and "a \<noteq> b"
  shows "min a b < (w1 * a + w2 * b) / (w1 + w2) \<and> (w1 * a + w2 * b) / (w1 + w2) < max a b"
proof -
  have w: "0 < w1 + w2" using assms by simp
  show ?thesis
  proof (cases "a < b")
    case True
    have "w1 * a < w1 * b" using True assms(1) by simp
    then have hi: "w1 * a + w2 * b < (w1 + w2) * b" by (simp add: algebra_simps)
    have "w2 * a < w2 * b" using True assms(2) by simp
    then have lo: "(w1 + w2) * a < w1 * a + w2 * b" by (simp add: algebra_simps)
    from lo hi w True show ?thesis
      by (simp add: pos_less_divide_eq pos_divide_less_eq mult.commute)
  next
    case False
    with assms(3) have ba: "b < a" by simp
    have "w1 * b < w1 * a" using ba assms(1) by simp
    then have lo: "(w1 + w2) * b < w1 * a + w2 * b" by (simp add: algebra_simps)
    have "w2 * b < w2 * a" using ba assms(2) by simp
    then have hi: "w1 * a + w2 * b < (w1 + w2) * a" by (simp add: algebra_simps)
    from lo hi w ba show ?thesis
      by (simp add: pos_less_divide_eq pos_divide_less_eq mult.commute)
  qed
qed

lemma buy_blend:
  "buy L symbol price reason score = Some (L', Some t) \<and> map_of (positions L) symbol = Some e \<longrightarrow>
     map_of (positions L') symbol =
       Some \<lparr>shares = shares e + t_shares t,
             avgCost = (shares e * avgCost e + t_shares t * price) / (shares e + t_shares t)\<rparr>
     \<and> (0 < shares e \<and> avgCost e \<noteq> price \<longrightarrow>
          min (avgCost e) price
            < (shares e * avgCost e + t_shares t * price) / (shares e + t_shares t)
          \<and> (shares e * avgCost e + t_shares t * price) / (shares e + t_shares t)
            < max (avgCost e) price)"
proof (intro impI, elim conjE)
  assume b: "buy L symbol price reason score = Some (L', Some t)"
    and look: "map_of (positions L) symbol = Some e"
  note x = buy_executed [OF b]
  have tot: "t_total t = t_shares t * price" using x by simp
  have pos: "positions L' = AList.update symbol
      \<lparr>shares = shares e + t_shares t,
       avgCost = (shares e * avgCost e + t_total t) / (shares e + t_shares t)\<rparr> (positions L)"
    using x look by simp
  have 1: "map_of (positions L') symbol =
       Some \<lparr>shares = shares e + t_shares t,
             avgCost = (shares e * avgCost e + t_shares t * price) / (shares e + t_shares t)\<rparr>"
    unfolding pos tot by (simp add: update_conv')
  have "1 \<le> t_shares t" using x by blast
  then have n: "0 < t_shares t" by simp
  have 2: "0 < shares e \<and> avgCost e \<noteq> price \<longrightarrow>
          min (avgCost e) price
            < (shares e * avgCost e + t_shares t * price) / (shares e + t_shares t)
          \<and> (shares e * avgCost e + t_shares t * price) / (shares e + t_shares t)
            < max (avgCost e) price"
    using weighted_mean_between [of "shares e" "t_shares t" "avgCost e" price] n by blast
  from 1 2 show "map_of (positions L') symbol =
       Some \<lparr>shares = shares e + t_shares t,
             avgCost = (shares e * avgCost e + t_shares t * price) / (shares e + t_shares t)\<rparr>
     \<and> (0 < shares e \<and> avgCost e \<noteq> price \<longrightarrow>
          min (avgCost e) price
            < (shares e * avgCost e + t_shares t * price) / (shares e + t_shares t)
          \<and> (shares e * avgCost e + t_shares t * price) / (shares e + t_shares t)
            < max (avgCost e) price)" by blast
qed

text \<open>
  Claim C4. A buy that adds shares to a held position leaves the average cost
  \<open>(oldShares * oldAvgCost + newShares * price) / (oldShares + newShares)\<close>, which lies
  strictly between the old average cost and the price when the two differ. Holding 10
  shares at 100 and buying 10 at 120 gives 20 shares at 110. The pool never buys a symbol
  it holds: for a held symbol a step records a sell or nothing.
\<close>

theorem buy_blends_average_cost:
  "(buy L symbol price reason score = Some (L', Some t) \<and> map_of (positions L) symbol = Some e \<longrightarrow>
     map_of (positions L') symbol =
       Some \<lparr>shares = shares e + t_shares t,
             avgCost = (shares e * avgCost e + t_shares t * price) / (shares e + t_shares t)\<rparr>
     \<and> (0 < shares e \<and> avgCost e \<noteq> price \<longrightarrow>
          min (avgCost e) price
            < (shares e * avgCost e + t_shares t * price) / (shares e + t_shares t)
          \<and> (shares e * avgCost e + t_shares t * price) / (shares e + t_shares t)
            < max (avgCost e) price))
   \<and> (tradeSymbol cfg T s p d = Some T' \<and> map_of (ai_positions T) s = Some pos \<longrightarrow>
        ai_trades T' = ai_trades T
          \<or> (\<exists>tr. ai_trades T' = tr # ai_trades T \<and> a_action tr = SELL))"
  using buy_blend [of L symbol price reason score L' t e]
    held_symbol_never_bought [of cfg T s p d T' pos]
  by blast

lemma heldLedger_add: "buy heldLedger ''AAPL'' 120 ''add'' 70 = Some (addedLedger, Some addTrade)"
  by code_simp

theorem buy_blends_average_cost_witness:
  "buy heldLedger ''AAPL'' 120 ''add'' 70 = Some (addedLedger, Some addTrade)
   \<and> map_of (positions heldLedger) ''AAPL'' = Some \<lparr>shares = 10, avgCost = 100\<rparr>
   \<and> map_of (positions addedLedger) ''AAPL'' = Some \<lparr>shares = 20, avgCost = 110\<rparr>
   \<and> min 100 120 < (110::real) \<and> (110::real) < max 100 120
   \<and> tradeSymbol (THRESHOLDS P_aggressive) heldTrader ''NVDA'' 90 weakDecision = Some soldTrader
   \<and> map_of (ai_positions heldTrader) ''NVDA'' = Some heldPosition
   \<and> (\<exists>tr. ai_trades soldTrader = tr # ai_trades heldTrader \<and> a_action tr = SELL)"
proof -
  note inst = buy_blends_average_cost [of heldLedger "''AAPL''" 120 "''add''" 70 addedLedger
      addTrade "\<lparr>shares = 10, avgCost = 100\<rparr>" "THRESHOLDS P_aggressive" heldTrader "''NVDA''"
      90 weakDecision soldTrader heldPosition]
  have look: "map_of (positions heldLedger) ''AAPL'' = Some \<lparr>shares = 10, avgCost = 100\<rparr>"
    by (simp add: heldLedger_def)
  from inst heldLedger_add look
  have "map_of (positions addedLedger) ''AAPL'' =
       Some \<lparr>shares = shares \<lparr>shares = 10, avgCost = 100\<rparr> + t_shares addTrade,
             avgCost = (shares \<lparr>shares = 10, avgCost = 100\<rparr> * avgCost \<lparr>shares = 10, avgCost = 100\<rparr>
                          + t_shares addTrade * 120)
                        / (shares \<lparr>shares = 10, avgCost = 100\<rparr> + t_shares addTrade)\<rparr>"
    by blast
  then have blend: "map_of (positions addedLedger) ''AAPL'' = Some \<lparr>shares = 20, avgCost = 110\<rparr>"
    by (simp add: addTrade_def)
  have held: "map_of (ai_positions heldTrader) ''NVDA'' = Some heldPosition"
    by (simp add: heldTrader_def)
  have changed: "ai_trades soldTrader \<noteq> ai_trades heldTrader"
    by (simp add: soldTrader_def)
  from inst held_step held changed
  have sold: "\<exists>tr. ai_trades soldTrader = tr # ai_trades heldTrader \<and> a_action tr = SELL"
    by blast
  have between: "min 100 120 < (110::real) \<and> (110::real) < max 100 120" by simp
  from heldLedger_add look blend between held_step held sold show ?thesis by blast
qed

section \<open>Positions with no shares\<close>

text \<open>
  A buy and a full sell keep every position of the map at a whole, strictly positive number
  of shares, and so does a partial sell of a position of two shares or more.
\<close>

lemma positiveShares_lookup:
  "positiveShares L \<Longrightarrow> map_of (positions L) symbol = Some pos \<Longrightarrow> shares pos \<in> \<int> \<and> 0 < shares pos"
  unfolding positiveShares_def by (auto dest: map_of_SomeD)

lemma positiveShares_update:
  assumes "positiveShares L" and "shares pos \<in> \<int>" and "0 < shares pos"
    and "positions L' = AList.update symbol pos (positions L)"
  shows "positiveShares L'"
  using assms unfolding positiveShares_def
  by (auto dest: set_update_cases)

lemma positiveShares_delete:
  assumes "positiveShares L" and "positions L' = AList.delete symbol (positions L)"
  shows "positiveShares L'"
  using assms unfolding positiveShares_def
  by (auto dest: set_delete_subset)

lemma buy_positiveShares:
  assumes b: "buy L symbol price reason score = Some (L', r)" and ps: "positiveShares L"
  shows "positiveShares L'"
proof (cases r)
  case None
  with b buy_null ps show ?thesis by metis
next
  case (Some t)
  with b have bt: "buy L symbol price reason score = Some (L', Some t)" by simp
  note e = buy_executed [OF bt]
  have one: "1 \<le> t_shares t" using e by blast
  have ts: "t_shares t \<in> \<int>" using e Math_floor_Ints by auto
  show ?thesis
  proof (cases "map_of (positions L) symbol")
    case None
    with e have u: "positions L' = AList.update symbol \<lparr>shares = t_shares t, avgCost = price\<rparr> (positions L)"
      by simp
    show ?thesis using positiveShares_update [OF ps _ _ u] ts one by simp
  next
    case (Some existing)
    from positiveShares_lookup [OF ps Some] have ex: "shares existing \<in> \<int>" "0 < shares existing"
      by simp_all
    from Some e have u: "positions L' = AList.update symbol
        \<lparr>shares = shares existing + t_shares t,
         avgCost = (shares existing * avgCost existing + t_total t) / (shares existing + t_shares t)\<rparr>
        (positions L)" by simp
    show ?thesis using positiveShares_update [OF ps _ _ u] ts ex one by simp
  qed
qed

lemma half_ceiling_positive:
  assumes "s \<in> \<int>" and "0 < s" and "s \<noteq> 1"
  shows "s - Math_ceil (s / 2) \<in> \<int> \<and> 0 < s - Math_ceil (s / 2)"
proof -
  from assms(1) obtain k :: int where k: "s = of_int k" by (auto elim: Ints_cases)
  with assms(2,3) have k2: "2 \<le> k" by auto
  have "real_of_int k / 2 \<le> real_of_int (k - 1)" using k2 by simp
  then have "\<lceil>real_of_int k / 2\<rceil> \<le> k - 1" by (simp only: ceiling_le_iff)
  then have "\<lceil>real_of_int k / 2\<rceil> < k" by simp
  then have "real_of_int \<lceil>real_of_int k / 2\<rceil> < real_of_int k" by (simp only: of_int_less_iff)
  then have lt: "Math_ceil (s / 2) < s" by (simp add: Math_ceil_def k)
  have "Math_ceil (s / 2) \<in> \<int>" by (simp add: Math_ceil_def)
  with assms(1) have "s - Math_ceil (s / 2) \<in> \<int>" by (rule Ints_diff)
  with lt show ?thesis by simp
qed

lemma sell_positiveShares:
  assumes b: "sell L symbol price reason score sellAll = (L', r)" and ps: "positiveShares L"
    and more: "sellAll \<or> (\<forall>pos. map_of (positions L) symbol = Some pos \<longrightarrow> shares pos \<noteq> 1)"
  shows "positiveShares L'"
proof (cases r)
  case None
  with b sell_null ps show ?thesis by metis
next
  case (Some t)
  with b have bt: "sell L symbol price reason score sellAll = (L', Some t)" by simp
  from sell_executed [OF bt] obtain pos where e:
    "map_of (positions L) symbol = Some pos" "0 < shares pos"
    "t_shares t = (if sellAll then shares pos else Math_ceil (shares pos / 2))"
    "positions L' =
          (if sellAll then AList.delete symbol (positions L)
           else AList.update symbol
                  \<lparr>shares = shares pos - t_shares t, avgCost = avgCost pos\<rparr> (positions L))"
    by blast
  show ?thesis
  proof (cases sellAll)
    case True
    with e(4) have "positions L' = AList.delete symbol (positions L)" by simp
    then show ?thesis by (rule positiveShares_delete [OF ps])
  next
    case False
    with more e(1) have n1: "shares pos \<noteq> 1" by blast
    from positiveShares_lookup [OF ps e(1)] have "shares pos \<in> \<int>" by simp
    from half_ceiling_positive [OF this e(2) n1] False e(3)
    have h: "shares pos - t_shares t \<in> \<int>" "0 < shares pos - t_shares t" by simp_all
    from False e(4) have u: "positions L' = AList.update symbol
        \<lparr>shares = shares pos - t_shares t, avgCost = avgCost pos\<rparr> (positions L)" by simp
    show ?thesis using positiveShares_update [OF ps _ _ u] h by simp
  qed
qed

text \<open>
  Claim C5 asks that every position in the map has strictly positive shares after every
  buy and sell, partial sells included. On a fresh ledger, buying at 15000 gives one share;
  the partial sell that follows sells \<open>ceil(1 / 2) = 1\<close> share and stores the position back
  with 0 shares, where the full sell deletes it.
\<close>

theorem partial_sell_of_one_share_keeps_empty_position:
  "map_option (\<lambda>L. map_of (positions L) ''BRK'')
     (run (newLedger :: string Ledger)
        [OpBuy ''BRK'' 15000 ''entry'' 80, OpSell ''BRK'' 15000 ''trim'' 45 False])
   = Some (Some \<lparr>shares = 0, avgCost = 15000\<rparr>)"
  by code_simp

section \<open>Cash\<close>

lemma pool_buy_affordable:
  assumes step: "tradeSymbol cfg T0 s price d = Some T1"
    and new: "ai_trades T1 = tr # ai_trades T0" and act: "a_action tr = BUY"
  shows "a_amount tr \<le> currentCash T0 \<and> currentCash T1 = currentCash T0 - a_amount tr"
proof (cases "map_of (ai_positions T0) s")
  case (Some pos)
  from held_symbol_never_bought [OF step Some] new act show ?thesis by auto
next
  case None
  define entry where "entry \<longleftrightarrow>
      compositeScore d \<ge> buyScore cfg \<and> length (ai_positions T0) < maxPositions cfg
        \<and> currentCash T0 * positionSize cfg \<ge> 10
        \<and> currentCash T0 \<ge> currentCash T0 * positionSize cfg"
  have eq: "tradeSymbol cfg T0 s price d =
      (if entry
         then executeBuy T0 s price (currentCash T0 * positionSize cfg) (BuyMsg s (compositeScore d))
       else Some T0)"
    unfolding entry_def by (rule tradeSymbol_free [OF None])
  have e: entry using step new eq by (cases entry) simp_all
  then have le: "currentCash T0 * positionSize cfg \<le> currentCash T0" by (simp add: entry_def)
  have p: "price \<noteq> 0" using step eq e by (auto simp add: executeBuy_def)
  from step eq e have "executeBuy T0 s price (currentCash T0 * positionSize cfg)
      (BuyMsg s (compositeScore d)) = Some T1" by simp
  then have T1: "T1 = T0\<lparr>currentCash := currentCash T0 - currentCash T0 * positionSize cfg,
             ai_positions := AList.update s
               \<lparr>p_symbol = s, p_shares = currentCash T0 * positionSize cfg / price,
                p_avgCost = price, p_currentPrice = price, p_pnl = 0, p_pnlPercent = 0\<rparr>
               (ai_positions T0),
             ai_trades := \<lparr>a_symbol = s, a_action = BUY, a_price = price,
                           a_shares = currentCash T0 * positionSize cfg / price,
                           a_amount = currentCash T0 * positionSize cfg,
                           a_reason = BuyMsg s (compositeScore d),
                           a_pnl = None\<rparr> # ai_trades T0,
             tradeCount := tradeCount T0 + 1\<rparr>"
    unfolding executeBuy_result [OF p] by simp
  from new have "tr = hd (ai_trades T1)" by simp
  then have "a_amount tr = currentCash T0 * positionSize cfg" unfolding T1 by simp
  then show ?thesis using le unfolding T1 by simp
qed

text \<open>
  Claim C1. For every sequence of buy and sell operations at positive prices on a fresh
  ledger, after every prefix of it the cash equals the starting capital minus the amounts
  of the recorded buys plus the amounts of the recorded sells, and is not negative; every
  buy that executes debits an amount no greater than the cash available. The same holds
  for a trader of the pool over any sequence of ticks with positive quotes.
\<close>

theorem cash_accounting:
  "((\<forall>x \<in> set ops. 0 < opPrice x) \<longrightarrow>
      (\<exists>L. run (newLedger :: 'r Ledger) (take n ops) = Some L
           \<and> cash L = startingCapital L - debited (trades L) + credited (trades L)
           \<and> 0 \<le> cash L))
   \<and> (buy (L0 :: 'r Ledger) symbol price reason score = Some (L1, Some t) \<longrightarrow>
        t_total t \<le> cash L0 \<and> cash L1 = cash L0 - t_total t)
   \<and> ((\<forall>fetch \<in> set fetches. positivePrices fetch) \<longrightarrow>
      (\<exists>T. runTicks personality (take m fetches) (initializeTrader personality) = Some T
           \<and> currentCash T
               = initialCapital T - ai_debited (ai_trades T) + ai_credited (ai_trades T)
           \<and> 0 \<le> currentCash T))
   \<and> (tradeSymbol cfg T0 s p d = Some T1 \<and> ai_trades T1 = tr # ai_trades T0
        \<and> a_action tr = BUY \<longrightarrow>
      a_amount tr \<le> currentCash T0 \<and> currentCash T1 = currentCash T0 - a_amount tr)"
proof -
  have 1: "(\<forall>x \<in> set ops. 0 < opPrice x) \<longrightarrow>
      (\<exists>L. run (newLedger :: 'r Ledger) (take n ops) = Some L
           \<and> cash L = startingCapital L - debited (trades L) + credited (trades L)
           \<and> 0 \<le> cash L)"
    using paper_ledger_cash [of ops n] by blast
  have 2: "buy L0 symbol price reason score = Some (L1, Some t) \<longrightarrow>
        t_total t \<le> cash L0 \<and> cash L1 = cash L0 - t_total t"
    using buy_affordable [of L0 symbol price reason score L1 t]
      buy_executed [of L0 symbol price reason score L1 t] by blast
  have 3: "(\<forall>fetch \<in> set fetches. positivePrices fetch) \<longrightarrow>
      (\<exists>T. runTicks personality (take m fetches) (initializeTrader personality) = Some T
           \<and> currentCash T
               = initialCapital T - ai_debited (ai_trades T) + ai_credited (ai_trades T)
           \<and> 0 \<le> currentCash T)"
    using pool_cash [of fetches personality m] by blast
  have 4: "tradeSymbol cfg T0 s p d = Some T1 \<and> ai_trades T1 = tr # ai_trades T0
        \<and> a_action tr = BUY \<longrightarrow>
      a_amount tr \<le> currentCash T0 \<and> currentCash T1 = currentCash T0 - a_amount tr"
    using pool_buy_affordable [of cfg T0 s p d T1 tr] by blast
  from 1 2 3 4 show ?thesis by blast
qed

lemma paperOps_run:
  "run (newLedger :: string Ledger) (take 2 paperOps)
   = Some \<lparr>cash = 101330, positions = [],
           trades = [\<lparr>t_symbol = ''AAPL'', t_action = SELL, t_shares = 133, t_price = 160,
                      t_total = 21280, t_reason = ''exit'', t_argusScore = 30\<rparr>,
                     firstTrade],
           startingCapital = 100000\<rparr>"
  by code_simp

lemma first_buy:
  "buy (newLedger :: string Ledger) ''AAPL'' 150 ''entry'' 70 = Some (firstLedger, Some firstTrade)"
  by code_simp

lemma first_tick:
  "runTicks P_aggressive (take 1 [quoteFor ''NVDA'' 100 62]) (initializeTrader P_aggressive)
     = Some heldTrader"
  by code_simp

lemma first_tick_step:
  "tradeSymbol (THRESHOLDS P_aggressive) (initializeTrader P_aggressive) ''NVDA'' 100
     (makeDecision None (poolInputs ''NVDA'' 62)) = Some heldTrader"
  by code_simp

lemma quoteFor_positive: "0 < price \<Longrightarrow> positivePrices (quoteFor symbol price v)"
  by (simp add: positivePrices_def quoteFor_def)

theorem cash_accounting_witness:
  "list_all (\<lambda>x. 0 < opPrice x) paperOps
   \<and> (\<exists>L. run (newLedger :: string Ledger) (take 2 paperOps) = Some L
         \<and> cash L = 101330
         \<and> cash L = startingCapital L - debited (trades L) + credited (trades L)
         \<and> 0 \<le> cash L)
   \<and> buy (newLedger :: string Ledger) ''AAPL'' 150 ''entry'' 70 = Some (firstLedger, Some firstTrade)
   \<and> t_total firstTrade \<le> cash (newLedger :: string Ledger)
   \<and> cash firstLedger = cash (newLedger :: string Ledger) - t_total firstTrade
   \<and> positivePrices (quoteFor ''NVDA'' 100 62)
   \<and> (\<exists>T. runTicks P_aggressive (take 1 [quoteFor ''NVDA'' 100 62])
              (initializeTrader P_aggressive) = Some T
         \<and> currentCash T = 750
         \<and> currentCash T
             = initialCapital T - ai_debited (ai_trades T) + ai_credited (ai_trades T)
         \<and> 0 \<le> currentCash T)
   \<and> tradeSymbol (THRESHOLDS P_aggressive) (initializeTrader P_aggressive) ''NVDA'' 100
        (makeDecision None (poolInputs ''NVDA'' 62)) = Some heldTrader
   \<and> ai_trades heldTrader = firstPoolTrade # ai_trades (initializeTrader P_aggressive)
   \<and> a_action firstPoolTrade = BUY
   \<and> a_amount firstPoolTrade \<le> currentCash (initializeTrader P_aggressive)
   \<and> currentCash heldTrader
       = currentCash (initializeTrader P_aggressive) - a_amount firstPoolTrade"
proof -
  note inst = cash_accounting [of paperOps 2 newLedger "''AAPL''" 150 "''entry''" 70 firstLedger
      firstTrade "[quoteFor ''NVDA'' 100 62]" P_aggressive 1 "THRESHOLDS P_aggressive"
      "initializeTrader P_aggressive" "''NVDA''" 100 "makeDecision None (poolInputs ''NVDA'' 62)"
      heldTrader firstPoolTrade]
  have h1: "\<forall>x \<in> set paperOps. 0 < opPrice x" by (simp add: paperOps_def)
  have h1': "list_all (\<lambda>x. 0 < opPrice x) paperOps" by (simp add: paperOps_def)
  have h3: "\<forall>fetch \<in> set [quoteFor ''NVDA'' 100 62]. positivePrices fetch"
    by (simp add: quoteFor_positive)
  have h4: "ai_trades heldTrader = firstPoolTrade # ai_trades (initializeTrader P_aggressive)"
    "a_action firstPoolTrade = BUY"
    by (simp_all add: initializeTrader_def heldTrader_def firstPoolTrade_def)
  from inst h1 obtain L where L: "run (newLedger :: string Ledger) (take 2 paperOps) = Some L"
    "cash L = startingCapital L - debited (trades L) + credited (trades L)" "0 \<le> cash L"
    by blast
  from L(1) have "cash L = 101330" unfolding paperOps_run by auto
  with L have c1: "\<exists>L. run (newLedger :: string Ledger) (take 2 paperOps) = Some L
         \<and> cash L = 101330
         \<and> cash L = startingCapital L - debited (trades L) + credited (trades L)
         \<and> 0 \<le> cash L" by blast
  from inst first_buy have c2: "t_total firstTrade \<le> cash (newLedger :: string Ledger)
      \<and> cash firstLedger = cash (newLedger :: string Ledger) - t_total firstTrade" by blast
  from inst h3 obtain T where T: "runTicks P_aggressive (take 1 [quoteFor ''NVDA'' 100 62])
              (initializeTrader P_aggressive) = Some T"
    "currentCash T = initialCapital T - ai_debited (ai_trades T) + ai_credited (ai_trades T)"
    "0 \<le> currentCash T" by blast
  from T(1) have "currentCash T = 750" unfolding first_tick by (auto simp add: heldTrader_def)
  with T have c3: "\<exists>T. runTicks P_aggressive (take 1 [quoteFor ''NVDA'' 100 62])
              (initializeTrader P_aggressive) = Some T
         \<and> currentCash T = 750
         \<and> currentCash T
             = initialCapital T - ai_debited (ai_trades T) + ai_credited (ai_trades T)
         \<and> 0 \<le> currentCash T" by blast
  from inst h4 first_tick_step have c4:
    "a_amount firstPoolTrade \<le> currentCash (initializeTrader P_aggressive)
     \<and> currentCash heldTrader
         = currentCash (initializeTrader P_aggressive) - a_amount firstPoolTrade"
    by blast
  from h1' c1 first_buy c2 quoteFor_positive [of 100 "''NVDA''" 62] c3 first_tick_step h4 c4
  show ?thesis by simp
qed

section \<open>Exits before entries\<close>










lemma strong_composite: "compositeScore strongDecision = 67"
  by code_simp






end
